theory Spec2Isabelle
  imports Complex_Main
begin

section \<open>Strings\<close>

text \<open>
  JavaScript strings are modelled as \<^typ>\<open>string\<close> holding ASCII text (command output,
  sysfs and procfs files, docker's JSON fields). \<open>is_space\<close> is the ASCII part of the
  class \<open>\s\<close>, which is also what \<open>trim()\<close> strips.
\<close>

definition is_space :: "char \<Rightarrow> bool" where
  "is_space c \<longleftrightarrow> c = CHR '' '' \<or> c = CHR 0x09 \<or> c = CHR 0x0A \<or> c = CHR 0x0B
     \<or> c = CHR 0x0C \<or> c = CHR 0x0D"

definition is_digit :: "char \<Rightarrow> bool" where
  "is_digit c \<longleftrightarrow> c \<in> set ''0123456789''"

definition is_alpha :: "char \<Rightarrow> bool" where
  "is_alpha c \<longleftrightarrow>
     c \<in> set ''abcdefghijklmnopqrstuvwxyz'' \<or> c \<in> set ''ABCDEFGHIJKLMNOPQRSTUVWXYZ''"

text \<open>\<open>s.trim()\<close>\<close>

definition trim :: "string \<Rightarrow> string" where
  "trim s = rev (dropWhile is_space (rev (dropWhile is_space s)))"

text \<open>
  \<open>s.split(sep)\<close> for a one-character separator: the result is never empty, and the
  empty string gives one empty piece.
\<close>

fun split_on :: "char \<Rightarrow> string \<Rightarrow> string list" where
  "split_on sep [] = [[]]"
| "split_on sep (c # cs) =
     (if c = sep then [] # split_on sep cs
      else (case split_on sep cs of w # ws \<Rightarrow> (c # w) # ws | [] \<Rightarrow> [[c]]))"

text \<open>\<open>s.split(/\s+/)\<close>: the separator is a maximal run of whitespace.\<close>

function split_ws :: "string \<Rightarrow> string list" where
  "split_ws [] = [[]]"
| "split_ws (c # cs) =
     (if is_space c then [] # split_ws (dropWhile is_space cs)
      else (case split_ws cs of w # ws \<Rightarrow> (c # w) # ws | [] \<Rightarrow> [[c]]))"
  by pat_completeness auto
termination
  by (relation "measure length") (auto simp: le_imp_less_Suc length_dropWhile_le)

text \<open>\<open>s.toLowerCase()\<close> on ASCII text.\<close>

definition lower_char :: "char \<Rightarrow> char" where
  "lower_char c =
     (case map_of (zip ''ABCDEFGHIJKLMNOPQRSTUVWXYZ'' ''abcdefghijklmnopqrstuvwxyz'') c of
        Some l \<Rightarrow> l | None \<Rightarrow> c)"

definition toLowerCase :: "string \<Rightarrow> string" where
  "toLowerCase s = map lower_char s"

text \<open>\<open>s.startsWith(p)\<close>, \<open>s.endsWith(p)\<close> and \<open>s.includes(p)\<close>.\<close>

definition startsWith :: "string \<Rightarrow> string \<Rightarrow> bool" where
  "startsWith s p \<longleftrightarrow> take (length p) s = p"

definition endsWith :: "string \<Rightarrow> string \<Rightarrow> bool" where
  "endsWith s p \<longleftrightarrow> startsWith (rev s) (rev p)"

fun includes_str :: "string \<Rightarrow> string \<Rightarrow> bool" where
  "includes_str [] p \<longleftrightarrow> p = []"
| "includes_str (c # cs) p \<longleftrightarrow> startsWith (c # cs) p \<or> includes_str cs p"

text \<open>\<open>xs[i]\<close>: \<open>undefined\<close> (here \<open>None\<close>) out of range.\<close>

definition at_index :: "'a list \<Rightarrow> nat \<Rightarrow> 'a option" where
  "at_index xs i = (if i < length xs then Some (xs ! i) else None)"

section \<open>Numbers\<close>

text \<open>
  A JavaScript number is modelled as an exact rational or \<open>NaN\<close>: the rounding of
  IEEE doubles and the infinities are not modelled. Every division of the code modelled
  here has a divisor that the code has tested to be non-zero.
\<close>

datatype jsnum = NaN | Num rat

text \<open>\<open>v || 0\<close> and \<open>Number.isFinite(v) ? v : 0\<close> agree without infinities.\<close>

fun or0 :: "jsnum \<Rightarrow> rat" where
  "or0 NaN = 0"
| "or0 (Num v) = v"

fun js_sub :: "jsnum \<Rightarrow> jsnum \<Rightarrow> jsnum" where
  "js_sub (Num a) (Num b) = Num (a - b)"
| "js_sub _ _ = NaN"

fun js_map :: "(rat \<Rightarrow> rat) \<Rightarrow> jsnum \<Rightarrow> jsnum" where
  "js_map f (Num a) = Num (f a)"
| "js_map f NaN = NaN"

text \<open>The value of a string of decimal digits.\<close>

definition digit_val :: "char \<Rightarrow> int" where
  "digit_val c = int (of_char c) - 48"

definition digits_val :: "string \<Rightarrow> int" where
  "digits_val ds = foldl (\<lambda>acc c. 10 * acc + digit_val c) 0 ds"

text \<open>
  \<open>Number.parseInt(s, 10)\<close>: leading whitespace is skipped, one sign is read, then the
  longest run of digits; with no digit the result is \<open>NaN\<close>.
\<close>

definition parseInt :: "string \<Rightarrow> jsnum" where
  "parseInt s =
     (let t = dropWhile is_space s;
          neg = (case t of c # _ \<Rightarrow> c = CHR ''-'' | [] \<Rightarrow> False);
          u = (case t of c # r \<Rightarrow> if c = CHR ''-'' \<or> c = CHR ''+'' then r else t | [] \<Rightarrow> t);
          ds = takeWhile is_digit u
      in if ds = [] then NaN
         else Num (of_int (if neg then - digits_val ds else digits_val ds)))"

text \<open>
  \<open>Number(s)\<close> is a parameter \<open>toNumber\<close> of the functions that call it. \<open>decimalNumber\<close>
  is what it gives on the tokens of \<open>/proc/stat\<close> and \<open>df -B1\<close> and on the digits a
  regular expression has captured: the value of a string of decimal digits (\<open>0\<close> for the
  empty string), \<open>NaN\<close> for a token with any other character.
\<close>

definition decimalNumber :: "string \<Rightarrow> jsnum" where
  "decimalNumber s =
     (if list_all is_digit s then Num (of_int (digits_val s)) else NaN)"

text \<open>\<open>round(v)\<close> and \<open>clamp(v, min, max)\<close> of both files; \<open>Math.round\<close> rounds half up.\<close>

fun round2 :: "jsnum \<Rightarrow> rat" where
  "round2 NaN = 0"
| "round2 (Num v) = of_int \<lfloor>v * 100 + 1 / 2\<rfloor> / 100"

fun clamp :: "jsnum \<Rightarrow> rat \<Rightarrow> rat \<Rightarrow> rat" where
  "clamp NaN lo hi = lo"
| "clamp (Num v) lo hi = min (max v lo) hi"

section \<open>CPU percentage\<close>

text \<open>The object \<open>{idle, total}\<close> that \<open>parseCpuLine\<close> returns.\<close>

record cpu_sample =
  idle :: rat
  total_cpu :: rat

definition parseCpuLine :: "(string \<Rightarrow> jsnum) \<Rightarrow> string \<Rightarrow> cpu_sample" where
  "parseCpuLine toNumber line =
     (let values = map toNumber (drop 1 (split_ws (trim line)));
          field = (\<lambda>i. case at_index values i of Some v \<Rightarrow> or0 v | None \<Rightarrow> 0)
      in \<lparr> idle = field 3 + field 4,
           total_cpu = foldl (\<lambda>sum v. sum + or0 v) 0 values \<rparr>)"

text \<open>
  The arithmetic both copies of \<open>collectCpuPercent\<close> share, on the sample read before
  the 400 ms pause and the one read after it.
\<close>

definition cpuUsage :: "cpu_sample \<Rightarrow> cpu_sample \<Rightarrow> rat" where
  "cpuUsage first second =
     (let idleDelta = idle second - idle first;
          totalDelta = total_cpu second - total_cpu first;
          usage = (if totalDelta = 0 then 0 else (1 - idleDelta / totalDelta) * 100)
      in clamp (Num usage) 0 100)"

text \<open>\<open>ws-server/server.mjs\<close>: the two arguments are the contents of \<open>/proc/stat\<close>.\<close>

definition collectCpuPercent :: "(string \<Rightarrow> jsnum) \<Rightarrow> string \<Rightarrow> string \<Rightarrow> rat" where
  "collectCpuPercent toNumber stat1 stat2 =
     cpuUsage (parseCpuLine toNumber (hd (split_on CHR 0x0A stat1)))
              (parseCpuLine toNumber (hd (split_on CHR 0x0A stat2)))"

text \<open>
  \<open>src/preload.js\<close>: the two arguments are the outcomes of running \<open>head -n1 /proc/stat\<close>
  over the connection; a failed command (\<open>Inl\<close>) rejects the call.
\<close>

definition collectCpuPercent_ssh ::
  "(string \<Rightarrow> jsnum) \<Rightarrow> string + string \<Rightarrow> string + string \<Rightarrow> string + rat" where
  "collectCpuPercent_ssh toNumber out1 out2 =
     (case out1 of
        Inl err \<Rightarrow> Inl err
      | Inr line1 \<Rightarrow>
          (case out2 of
             Inl err \<Rightarrow> Inl err
           | Inr line2 \<Rightarrow>
               Inr (cpuUsage (parseCpuLine toNumber line1) (parseCpuLine toNumber line2))))"


section \<open>Command execution\<close>

text \<open>
  A command run on the host either fails (\<open>Inl\<close> the error message) or gives its
  standard output (\<open>Inr\<close>). The executor is a parameter: it stands for \<open>execAsync\<close> in
  \<open>ws-server/server.mjs\<close> and for \<open>runCommand\<close> in \<open>src/preload.js\<close>.
\<close>

type_synonym executor = "string \<Rightarrow> string + string"

section \<open>Network rates\<close>

subsection \<open>\<open>ws-server/server.mjs\<close>\<close>

text \<open>
  The stored sample \<open>{iface, rxBytes, txBytes, ts}\<close> and the returned object
  \<open>{interface, rxMbps, txMbps, rxRateMbps, txRateMbps}\<close>; a rate is \<open>null\<close> (\<open>None\<close>) or a
  number.
\<close>

record net_sample =
  iface :: string
  rxBytes :: jsnum
  txBytes :: jsnum
  ts :: int

record net_stats =
  interface :: string
  rxMbps :: "jsnum option"
  txMbps :: "jsnum option"
  rxRateMbps :: "jsnum option"
  txRateMbps :: "jsnum option"

text \<open>
  The block that computes \<open>rxMbps\<close> and \<open>txMbps\<close> (\<open>None\<close> for \<open>null\<close>) from the new
  readings and the module variable \<open>lastNet\<close>.
\<close>

definition netRates ::
  "string \<Rightarrow> jsnum \<Rightarrow> jsnum \<Rightarrow> int \<Rightarrow> net_sample option \<Rightarrow> jsnum option \<times> jsnum option" where
  "netRates INTERFACE rx tx now lastNet =
     (case lastNet of
        None \<Rightarrow> (None, None)
      | Some l \<Rightarrow>
          if iface l = INTERFACE then
            (let seconds = of_int (now - ts l) / 1000
             in if seconds > 0 then
                  (Some (js_map (\<lambda>d. d * 8 / seconds / 1000000) (js_sub rx (rxBytes l))),
                   Some (js_map (\<lambda>d. d * 8 / seconds / 1000000) (js_sub tx (txBytes l))))
                else (None, None))
          else (None, None))"

text \<open>
  \<open>INTERFACE\<close> is the configured interface name, \<open>files\<close> the contents of its \<open>rx_bytes\<close>
  and \<open>tx_bytes\<close> files (\<open>None\<close> when one of them does not exist), \<open>now\<close> is \<open>Date.now()\<close>
  in milliseconds and \<open>lastNet\<close> the module variable of that name. The result is the
  returned object (\<open>None\<close> for \<open>null\<close>) and the new value of \<open>lastNet\<close>.
\<close>

definition collectNetworkStats ::
  "string \<Rightarrow> (string \<times> string) option \<Rightarrow> int \<Rightarrow> net_sample option
     \<Rightarrow> net_stats option \<times> net_sample option" where
  "collectNetworkStats INTERFACE files now lastNet =
     (case files of
        None \<Rightarrow> (None, lastNet)
      | Some (rxText, txText) \<Rightarrow>
          (let rx = parseInt rxText;
               tx = parseInt txText;
               rates = netRates INTERFACE rx tx now lastNet
           in (Some \<lparr> interface = INTERFACE, rxMbps = fst rates, txMbps = snd rates,
                       rxRateMbps = fst rates, txRateMbps = snd rates \<rparr>,
               Some \<lparr> iface = INTERFACE, rxBytes = rx, txBytes = tx, ts = now \<rparr>)))"

subsection \<open>\<open>src/preload.js\<close>\<close>

text \<open>
  The stored sample \<open>{interface, rxBytes, txBytes, timestamp}\<close> (fields \<open>s_...\<close>) and
  the returned object \<open>{interface, rxBytes, txBytes, rxRateMbps, txRateMbps}\<close> (fields
  \<open>r_...\<close>). The byte counts are finite numbers here: the function rejects \<open>NaN\<close>.
\<close>

record net_sample_ssh =
  s_interface :: string
  s_rxBytes :: rat
  s_txBytes :: rat
  s_timestamp :: int

record net_stats_ssh =
  r_interface :: string
  r_rxBytes :: rat
  r_txBytes :: rat
  r_rxRateMbps :: "rat option"
  r_txRateMbps :: "rat option"

definition sanitizeInterfaceName :: "string option \<Rightarrow> string option" where
  "sanitizeInterfaceName name =
     (case name of
        None \<Rightarrow> None
      | Some n \<Rightarrow>
          if n = [] then None
          else Some (filter (\<lambda>c. is_alpha c \<or> is_digit c \<or> c \<in> set ''_.:-'') n))"

text \<open>
  The block that computes \<open>rxRateMbps\<close> and \<open>txRateMbps\<close> from the new readings and
  the module variable \<open>lastNetSample\<close>.
\<close>

definition netRates_ssh ::
  "string \<Rightarrow> rat \<Rightarrow> rat \<Rightarrow> int \<Rightarrow> net_sample_ssh option \<Rightarrow> rat option \<times> rat option" where
  "netRates_ssh ifc rx tx now lastNetSample =
     (case lastNetSample of
        None \<Rightarrow> (None, None)
      | Some l \<Rightarrow>
          if s_interface l = ifc then
            (let deltaMs = max (now - s_timestamp l) 1;
                 seconds = of_int deltaMs / 1000;
                 rxDelta = max (rx - s_rxBytes l) 0;
                 txDelta = max (tx - s_txBytes l) 0
             in if seconds > 0 then
                  (Some (rxDelta * 8 / seconds / 1000000),
                   Some (txDelta * 8 / seconds / 1000000))
                else (None, None))
          else (None, None))"

definition netCommand :: "string \<Rightarrow> string" where
  "netCommand ifc = ''cat /sys/class/net/'' @ ifc @ ''/statistics/rx_bytes; cat /sys/class/net/''
     @ ifc @ ''/statistics/tx_bytes''"

text \<open>
  \<open>networkInterface\<close> is \<open>config.networkInterface\<close>, \<open>run\<close> the executor over the
  connection, \<open>lastNetSample\<close> the module variable. A rejected call is \<open>Inl\<close> the message.
\<close>

definition collectNetworkStats_ssh ::
  "string option \<Rightarrow> executor \<Rightarrow> int \<Rightarrow> net_sample_ssh option
     \<Rightarrow> (string + net_stats_ssh) \<times> net_sample_ssh option" where
  "collectNetworkStats_ssh networkInterface run now lastNetSample =
     (let iface = (case sanitizeInterfaceName networkInterface of
                     Some n \<Rightarrow> if n = [] then ''eth0'' else n
                   | None \<Rightarrow> ''eth0'')
      in case run (netCommand iface) of
           Inl err \<Rightarrow> (Inl err, lastNetSample)
         | Inr raw \<Rightarrow>
             (let tokens = filter (\<lambda>t. t \<noteq> []) (split_ws (trim raw));
                  rxParsed = (case at_index tokens 0 of Some t \<Rightarrow> parseInt t | None \<Rightarrow> NaN);
                  txParsed = (case at_index tokens 1 of Some t \<Rightarrow> parseInt t | None \<Rightarrow> NaN)
              in case (rxParsed, txParsed) of
                   (Num rx, Num tx) \<Rightarrow>
                     (let rates = netRates_ssh iface rx tx now lastNetSample
                      in (Inr \<lparr> r_interface = iface, r_rxBytes = rx, r_txBytes = tx,
                                 r_rxRateMbps = fst rates, r_txRateMbps = snd rates \<rparr>,
                          Some \<lparr> s_interface = iface, s_rxBytes = rx, s_txBytes = tx,
                                  s_timestamp = now \<rparr>))
                 | _ \<Rightarrow>
                     (Inl (''Unable to parse network stats for interface '' @ iface),
                      lastNetSample)))"

section \<open>Array usage\<close>

record array_usage =
  totalTb :: rat
  usedTb :: rat
  usedPercent :: rat

text \<open>What both copies of \<open>collectArrayUsage\<close> compute from the output of \<open>df\<close>.\<close>

definition arrayUsageOfDf :: "(string \<Rightarrow> jsnum) \<Rightarrow> string \<Rightarrow> array_usage" where
  "arrayUsageOfDf toNumber df =
     (let parts = split_ws (trim df)
      in if length parts < 5 then \<lparr> totalTb = 0, usedTb = 0, usedPercent = 0 \<rparr>
         else
           (let totalBytes = or0 (toNumber (parts ! 1));
                usedBytes = or0 (toNumber (parts ! 2));
                fallbackPercent = (if totalBytes \<noteq> 0 then usedBytes / totalBytes * 100 else 0);
                percent = (if parts ! 4 \<noteq> [] \<and> endsWith (parts ! 4) ''%''
                           then toNumber (butlast (parts ! 4)) else Num fallbackPercent)
            in \<lparr> totalTb = round2 (Num (if totalBytes \<noteq> 0
                                then totalBytes / 1024 / 1024 / 1024 / 1024 else 0)),
                 usedTb = round2 (Num (if usedBytes \<noteq> 0
                                then usedBytes / 1024 / 1024 / 1024 / 1024 else 0)),
                 usedPercent = clamp percent 0 100 \<rparr>))"

text \<open>
  \<open>ws-server/server.mjs\<close>: the whole body is inside \<open>try\<close>, and the \<open>catch\<close> logs and
  returns \<open>null\<close> (\<open>None\<close>).
\<close>

definition collectArrayUsage :: "(string \<Rightarrow> jsnum) \<Rightarrow> executor \<Rightarrow> array_usage option" where
  "collectArrayUsage toNumber run =
     (case run ''df -B1 /mnt/user | tail -n 1'' of
        Inl err \<Rightarrow> None
      | Inr stdout \<Rightarrow> Some (arrayUsageOfDf toNumber stdout))"

text \<open>\<open>src/preload.js\<close>: no \<open>try\<close>; a failed command rejects the call.\<close>

definition collectArrayUsage_ssh ::
  "(string \<Rightarrow> jsnum) \<Rightarrow> executor \<Rightarrow> string + array_usage" where
  "collectArrayUsage_ssh toNumber run =
     (case run ''df -B1 /mnt/user | tail -n 1'' of
        Inl err \<Rightarrow> Inl err
      | Inr df \<Rightarrow> Inr (arrayUsageOfDf toNumber df))"

section \<open>Virtual machines\<close>









section \<open>Container ports\<close>

subsection \<open>Regular expressions\<close>

text \<open>
  The fragment of JavaScript's regular expressions that \<open>parseDockerPorts\<close> uses: a
  literal, a greedy \<open>+\<close> over a character class, a greedy \<open>?\<close>, concatenation and a
  capture group. \<open>ms r (inp, caps)\<close> lists the ways \<open>r\<close> matches a prefix of \<open>inp\<close>, as
  the rest of the input and the captures, in the order a backtracking matcher tries
  them: the longest repetition first, an optional part present before absent.
\<close>

datatype rx =
    Lit string
  | PlusC "char \<Rightarrow> bool"
  | Opt rx
  | Seq rx rx
  | Grp nat rx

type_synonym mstate = "string \<times> (nat \<rightharpoonup> string)"

fun ms :: "rx \<Rightarrow> mstate \<Rightarrow> mstate list" where
  "ms (Lit l) (inp, caps) =
     (if take (length l) inp = l then [(drop (length l) inp, caps)] else [])"
| "ms (PlusC p) (inp, caps) =
     map (\<lambda>k. (drop k inp, caps)) (rev [1 ..< Suc (length (takeWhile p inp))])"
| "ms (Opt r) st = ms r st @ [st]"
| "ms (Seq a b) st = concat (map (ms b) (ms a st))"
| "ms (Grp n r) (inp, caps) =
     map (\<lambda>(rest, caps'). (rest, caps'(n \<mapsto> take (length inp - length rest) inp)))
       (ms r (inp, caps))"

text \<open>
  \<open>s.match(r)\<close> without the \<open>g\<close> flag: the first way to match at the leftmost position
  that has one; the result is the captures (\<open>None\<close> for \<open>null\<close>).
\<close>

fun rx_match :: "rx \<Rightarrow> string \<Rightarrow> (nat \<rightharpoonup> string) option" where
  "rx_match r s =
     (case ms r (s, Map.empty) of
        (rest, caps) # _ \<Rightarrow> Some caps
      | [] \<Rightarrow> (case s of [] \<Rightarrow> None | _ # s' \<Rightarrow> rx_match r s'))"

text \<open>\<open>/([^:]+)?:?(\d+)->(\d+)(?:\/([a-z]+))?/i\<close>\<close>

definition port_rx :: rx where
  "port_rx =
     Seq (Opt (Grp 1 (PlusC (\<lambda>c. c \<noteq> CHR '':''))))
    (Seq (Opt (Lit '':''))
    (Seq (Grp 2 (PlusC is_digit))
    (Seq (Lit ''->'')
    (Seq (Grp 3 (PlusC is_digit))
         (Opt (Seq (Lit ''/'') (Grp 4 (PlusC is_alpha))))))))"

subsection \<open>\<open>parseDockerPorts\<close>\<close>

text \<open>
  A parsed port is \<open>{display}\<close> alone or
  \<open>{hostIp, hostPort, containerPort, protocol, display}\<close>.
\<close>

datatype port =
    PortDisplay string
  | PortMapping string string string string string

fun port_hostPort :: "port \<Rightarrow> string option" where
  "port_hostPort (PortDisplay d) = None"
| "port_hostPort (PortMapping hostIp hostPort containerPort protocol d) = Some hostPort"

fun port_containerPort :: "port \<Rightarrow> string option" where
  "port_containerPort (PortDisplay d) = None"
| "port_containerPort (PortMapping hostIp hostPort containerPort protocol d) = Some containerPort"

definition group :: "(nat \<rightharpoonup> string) \<Rightarrow> nat \<Rightarrow> string" where
  "group m n = (case m n of Some g \<Rightarrow> g | None \<Rightarrow> [])"

definition parsePortSegment :: "string \<Rightarrow> port" where
  "parsePortSegment segment =
     (case rx_match port_rx segment of
        None \<Rightarrow> PortDisplay segment
      | Some m \<Rightarrow>
          (let hostIp = (if group m 1 \<noteq> [] \<and> CHR ''.'' \<in> set (group m 1)
                         then group m 1 else ''0.0.0.0'');
               hostPort = group m 2;
               containerPort = group m 3;
               protocol = (if group m 4 \<noteq> [] then group m 4 else ''tcp'')
           in PortMapping hostIp hostPort containerPort protocol
                (hostPort @ ''->'' @ containerPort @ ''/'' @ protocol)))"

definition parseDockerPorts :: "string \<Rightarrow> port list" where
  "parseDockerPorts rawPorts =
     (if rawPorts = [] then []
      else map parsePortSegment
             (filter (\<lambda>segment. segment \<noteq> []) (map trim (split_on CHR '','' rawPorts))))"

section \<open>Containers\<close>

subsection \<open>Truthiness of optional strings\<close>

text \<open>
  A field of a parsed JSON object is a string or absent (\<open>None\<close>, for \<open>undefined\<close> and
  \<open>null\<close>). It is truthy when present and not empty; \<open>a || b\<close> is \<open>or_else a b\<close>.
\<close>

definition truthy :: "string option \<Rightarrow> bool" where
  "truthy v \<longleftrightarrow> (case v of Some s \<Rightarrow> s \<noteq> [] | None \<Rightarrow> False)"

definition or_else :: "string option \<Rightarrow> string option \<Rightarrow> string option" where
  "or_else a b = (if truthy a then a else b)"

definition or_str :: "string option \<Rightarrow> string \<Rightarrow> string" where
  "or_str a d = (case a of Some s \<Rightarrow> if s \<noteq> [] then s else d | None \<Rightarrow> d)"

subsection \<open>Data\<close>

text \<open>One line of \<open>docker ps --format '{{json .}}'\<close>, parsed.\<close>

record ps_entry =
  ID :: "string option"
  Names :: "string option"
  Image :: "string option"
  Status :: "string option"
  Ports :: "string option"
  Labels :: "string option"

text \<open>One item of \<open>docker inspect\<close>, parsed: \<open>Id\<close> and \<open>NetworkSettings\<close>.\<close>

record network_settings =
  IPAddress :: "string option"
  Networks :: "(string \<times> string option) list option"

record details =
  Id :: "string option"
  NetworkSettings :: "network_settings option"

text \<open>One line of \<open>docker events --format '{{json .}}'\<close>, parsed.\<close>

record docker_event =
  ev_Type :: "string option"
  ev_id :: "string option"
  ev_ID :: "string option"
  ev_Actor_ID :: "string option"
  ev_status :: "string option"
  ev_Action :: "string option"

text \<open>
  The container object that \<open>buildContainerFromPsAndInspect\<close> returns (its \<open>metrics\<close>
  field is always \<open>null\<close> and is left out; \<open>id_c\<close> and \<open>image_c\<close> are its fields \<open>id\<close> and
  \<open>image\<close>), and the module variable \<open>containersCache\<close>, an object
  \<open>{initialised, list, byId}\<close> whose \<open>byId\<close> is a \<open>Map\<close>.
\<close>

record container =
  id_c :: string
  name :: "string option"
  image_c :: "string option"
  status :: "string option"
  running :: bool
  ports :: "port list"
  containerIp :: "string option"
  url :: "string option"
  icon :: "string option"

record containers_cache =
  initialised :: bool
  list_c :: "container list"
  byId :: "string \<rightharpoonup> container"

text \<open>
  \<open>JSON.parse\<close> on a line of \<open>docker ps\<close>: it throws, or it gives \<open>null\<close> (reading a field
  of it throws), or it gives a value whose fields are read; a value that is not an object
  has none of the fields.
\<close>

datatype parsed_entry = ParseThrows | ParsedNull | ParsedEntry ps_entry

text \<open>
  What the server takes from its platform: the environment variable \<open>UNRAID_HOST\<close>, the
  executor, \<open>JSON.parse\<close> on a line of \<open>docker ps\<close>, on the output of \<open>docker inspect\<close>
  (\<open>None\<close> when it throws or the value is not an array; an item of the array is \<open>None\<close>
  when it is \<open>null\<close>) and on a line of \<open>docker events\<close> (\<open>None\<close> when it throws or the value
  is falsy), and whether \<open>new URL(s)\<close> accepts \<open>s\<close>.
\<close>

record platform =
  UNRAID_HOST :: "string option"
  run :: executor
  parsePsEntry :: "string \<Rightarrow> parsed_entry"
  parseInspect :: "string \<Rightarrow> details option list option"
  parseEvent :: "string \<Rightarrow> docker_event option"
  urlValid :: "string \<Rightarrow> bool"

subsection \<open>Labels, address, templates and URLs\<close>

definition parseDockerLabels :: "string option \<Rightarrow> (string \<rightharpoonup> string)" where
  "parseDockerLabels rawLabels =
     (if \<not> truthy rawLabels then Map.empty
      else foldl
        (\<lambda>acc pair.
           let trimmedPair = trim pair
           in if trimmedPair = [] then acc
              else if CHR ''='' \<notin> set trimmedPair then acc
              else (let key = trim (takeWhile (\<lambda>c. c \<noteq> CHR ''='') trimmedPair);
                        val = trim (drop 1 (dropWhile (\<lambda>c. c \<noteq> CHR ''='') trimmedPair))
                    in if key \<noteq> [] \<and> val \<noteq> [] then acc(key \<mapsto> val) else acc))
        Map.empty (split_on CHR '','' (or_str rawLabels [])))"

definition resolveContainerIp :: "details option \<Rightarrow> string option" where
  "resolveContainerIp d =
     (case d of
        None \<Rightarrow> None
      | Some det \<Rightarrow>
          (case NetworkSettings det of
             None \<Rightarrow> None
           | Some ns \<Rightarrow>
               if truthy (IPAddress ns) then IPAddress ns
               else (case Networks ns of
                       None \<Rightarrow> None
                     | Some nets \<Rightarrow>
                         (case filter truthy (map snd nets) of
                            ip # _ \<Rightarrow> ip
                          | [] \<Rightarrow> None))))"

text \<open>\<open>String(n)\<close> for a natural number \<open>n\<close>.\<close>

definition digit_char :: "nat \<Rightarrow> char" where
  "digit_char d = ''0123456789'' ! (d mod 10)"

function string_of_nat :: "nat \<Rightarrow> string" where
  "string_of_nat n =
     (let lastDigit = [digit_char n]
      in if 10 \<le> n then string_of_nat (n div 10) @ lastDigit else lastDigit)"
  by pat_completeness auto
termination
  by (relation "measure id") auto

text \<open>
  \<open>output.replace(/\[IP\]/gi, resolvedIp)\<close>; the replacement holds no \<open>$\<close>.
\<close>

fun replaceIp :: "string \<Rightarrow> string \<Rightarrow> string" where
  "replaceIp ip [] = []"
| "replaceIp ip (c # cs) =
     (if toLowerCase (take 4 (c # cs)) = ''[ip]'' then ip @ replaceIp ip (drop 3 cs)
      else c # replaceIp ip cs)"

text \<open>The function that replaces one \<open>[PORT:n]\<close>, applied to the digits \<open>n\<close>.\<close>

definition portReplacement :: "port list \<Rightarrow> string \<Rightarrow> string" where
  "portReplacement ps digits =
     (let portNum = digits_val digits;
          numIs = (\<lambda>field. case field of Some d \<Rightarrow> decimalNumber d = Num (of_int portNum)
                             | None \<Rightarrow> False);
          matched = (case find (\<lambda>p. numIs (port_containerPort p)) ps of
                       Some p \<Rightarrow> Some p
                     | None \<Rightarrow> find (\<lambda>p. numIs (port_hostPort p)) ps)
      in case matched of
           Some p \<Rightarrow> or_str (port_hostPort p) (string_of_nat (nat portNum))
         | None \<Rightarrow> string_of_nat (nat portNum))"

function replacePort :: "port list \<Rightarrow> string \<Rightarrow> string" where
  "replacePort ps [] = []"
| "replacePort ps (c # cs) =
     (let digits = takeWhile is_digit (drop 5 cs);
          rest = dropWhile is_digit (drop 5 cs)
      in if toLowerCase (take 6 (c # cs)) = ''[port:'' \<and> digits \<noteq> [] \<and> take 1 rest = '']''
         then portReplacement ps digits @ replacePort ps (drop 1 rest)
         else c # replacePort ps cs)"
  by pat_completeness auto
termination
proof (relation "measure (\<lambda>(ps, s). length s)")
  fix ps :: "port list" and c :: char and cs digits rest :: string
  assume "rest = dropWhile is_digit (drop 5 cs)"
  then have "length (drop 1 rest) \<le> length cs"
    using length_dropWhile_le [of is_digit "drop 5 cs"] by simp
  then show "((ps, drop 1 rest), (ps, c # cs)) \<in> measure (\<lambda>(ps, s). length s)"
    by simp
qed auto

definition applyDockerTemplate ::
  "platform \<Rightarrow> string option \<Rightarrow> port list \<Rightarrow> string option \<Rightarrow> string option" where
  "applyDockerTemplate pf v ps ip =
     (if \<not> truthy v then v
      else (let resolvedIp = or_str ip (or_str (UNRAID_HOST pf) ''localhost'')
            in Some (replacePort ps (replaceIp resolvedIp (or_str v [])))))"

definition normalizeUrl :: "platform \<Rightarrow> string option \<Rightarrow> string option" where
  "normalizeUrl pf u =
     (if \<not> truthy u then None
      else (let trimmed = trim (or_str u []);
                candidate =
                  (if toLowerCase (take 7 trimmed) = ''http://''
                      \<or> toLowerCase (take 8 trimmed) = ''https://'' then trimmed
                   else if startsWith trimmed ''//'' then ''http:'' @ trimmed
                   else if startsWith trimmed ''/''
                     then ''http://'' @ or_str (UNRAID_HOST pf) ''localhost'' @ trimmed
                   else ''http://'' @ trimmed)
            in if trimmed = [] then None
               else if urlValid pf candidate then Some candidate else None))"

definition scheme_of :: "string \<Rightarrow> string" where
  "scheme_of portText = (if decimalNumber portText = Num 443 then ''https'' else ''http'')"

definition deriveDockerUrl :: "platform \<Rightarrow> port list \<Rightarrow> string option \<Rightarrow> string option" where
  "deriveDockerUrl pf ps ip =
     (if ps = [] then (if truthy ip then Some (''http://'' @ or_str ip []) else None)
      else (case find (\<lambda>p. truthy (port_hostPort p)) ps of
              Some candidate \<Rightarrow>
                (let hp = or_str (port_hostPort candidate) []
                 in Some (scheme_of hp @ ''://'' @ or_str (UNRAID_HOST pf) ''localhost''
                            @ '':'' @ hp))
            | None \<Rightarrow>
                if truthy ip then
                  (let cp = port_containerPort (hd ps)
                   in if truthy cp
                      then Some (scheme_of (or_str cp []) @ ''://'' @ or_str ip [] @ '':''
                                   @ or_str cp [])
                      else Some (''http://'' @ or_str ip []))
                else None))"

definition buildContainerFromPsAndInspect ::
  "platform \<Rightarrow> ps_entry \<Rightarrow> details option \<Rightarrow> container option" where
  "buildContainerFromPsAndInspect pf entry det =
     (if \<not> truthy (ID entry) then None
      else (let stat = toLowerCase (or_str (Status entry) []);
                ps = parseDockerPorts (or_str (Ports entry) []);
                labels = parseDockerLabels (Labels entry);
                ip = resolveContainerIp det;
                explicitUrl = applyDockerTemplate pf (labels ''net.unraid.docker.webui'') ps ip;
                explicitIcon = applyDockerTemplate pf (labels ''net.unraid.docker.icon'') ps ip
            in Some \<lparr> id_c = or_str (ID entry) [],
                      name = Names entry,
                      image_c = Image entry,
                      status = Status entry,
                      running = startsWith stat ''up'',
                      ports = ps,
                      containerIp = ip,
                      url = or_else (normalizeUrl pf explicitUrl) (deriveDockerUrl pf ps ip),
                      icon = normalizeUrl pf explicitIcon \<rparr>))"


subsection \<open>The cache and its operations\<close>

text \<open>\<open>xs.findIndex(p)\<close>: \<open>None\<close> stands for \<open>-1\<close>.\<close>

fun findIndex :: "('a \<Rightarrow> bool) \<Rightarrow> 'a list \<Rightarrow> nat option" where
  "findIndex p [] = None"
| "findIndex p (x # xs) = (if p x then Some 0 else map_option Suc (findIndex p xs))"

definition initialCache :: containers_cache where
  "initialCache = \<lparr> initialised = False, list_c = [], byId = Map.empty \<rparr>"

definition upsertContainerInCache :: "container \<Rightarrow> containers_cache \<Rightarrow> containers_cache" where
  "upsertContainerInCache c containersCache =
     (let lst = (case findIndex (\<lambda>x. id_c x = id_c c) (list_c containersCache) of
                   Some existingIndex \<Rightarrow> (list_c containersCache)[existingIndex := c]
                 | None \<Rightarrow> list_c containersCache @ [c]);
          m = (if id_c c \<noteq> [] then (byId containersCache)(id_c c \<mapsto> c)
               else byId containersCache)
      in containersCache\<lparr> list_c := lst, byId := m \<rparr>)"

definition removeContainerFromCache :: "string \<Rightarrow> containers_cache \<Rightarrow> containers_cache" where
  "removeContainerFromCache i containersCache =
     (if i = [] then containersCache
      else containersCache\<lparr> list_c := filter (\<lambda>c. id_c c \<noteq> i) (list_c containersCache),
                              byId := (byId containersCache)(i := None) \<rparr>)"

text \<open>\<open>Array.from(new Set(ids))\<close>: the first occurrence of each id, in order.\<close>

fun uniq :: "string list \<Rightarrow> string list" where
  "uniq [] = []"
| "uniq (x # xs) = x # uniq (filter (\<lambda>y. y \<noteq> x) xs)"

fun join_sp :: "string list \<Rightarrow> string" where
  "join_sp [] = []"
| "join_sp [x] = x"
| "join_sp (x # y # ys) = x @ '' '' @ join_sp (y # ys)"

definition inspectContainers :: "platform \<Rightarrow> string list \<Rightarrow> (string \<rightharpoonup> details)" where
  "inspectContainers pf ids =
     (if ids = [] then Map.empty
      else (case run pf (''docker inspect '' @ join_sp (uniq ids) @ '' || true'') of
              Inl err \<Rightarrow> Map.empty
            | Inr stdout \<Rightarrow>
                if stdout = [] \<or> trim stdout = [] then Map.empty
                else (case parseInspect pf stdout of
                        None \<Rightarrow> Map.empty
                      | Some parsed \<Rightarrow>
                          foldl (\<lambda>m item.
                                   case item of
                                     None \<Rightarrow> m
                                   | Some d \<Rightarrow>
                                       if truthy (Id d)
                                       then (m(or_str (Id d) [] \<mapsto> d))
                                              (take 12 (or_str (Id d) []) \<mapsto> d)
                                       else m)
                            Map.empty parsed)))"

text \<open>
  The arrays \<open>psEntries\<close> and \<open>ids\<close> that \<open>fullContainersRefresh\<close> builds from the
  output of \<open>docker ps -a\<close>. A line that \<open>JSON.parse\<close> rejects is skipped. A line that
  parses to \<open>null\<close> is pushed onto \<open>psEntries\<close> (as \<open>None\<close>) before the read of its \<open>ID\<close>
  throws, and the \<open>catch\<close> of the loop swallows that.
\<close>

definition psEntriesOf :: "platform \<Rightarrow> string \<Rightarrow> ps_entry option list" where
  "psEntriesOf pf stdout =
     List.map_filter
       (\<lambda>line. case parsePsEntry pf line of
                 ParseThrows \<Rightarrow> None
               | ParsedNull \<Rightarrow> Some None
               | ParsedEntry entry \<Rightarrow> Some (Some entry))
       (filter (\<lambda>line. line \<noteq> []) (map trim (split_on CHR 0x0A (trim stdout))))"

definition idsOf :: "ps_entry option list \<Rightarrow> string list" where
  "idsOf psEntries =
     List.map_filter
       (\<lambda>entry. case entry of
                  None \<Rightarrow> None
                | Some e \<Rightarrow> if truthy (ID e) then Some (or_str (ID e) []) else None)
       psEntries"

text \<open>
  One turn of the loop that fills \<open>list\<close> and \<open>byId\<close>. The accumulator is \<open>None\<close> once
  a turn has thrown: on a \<open>null\<close> entry the read of \<open>entry.ID\<close> throws.
\<close>

definition refreshStep ::
  "platform \<Rightarrow> (string \<rightharpoonup> details) \<Rightarrow> (container list \<times> (string \<rightharpoonup> container)) option
     \<Rightarrow> ps_entry option \<Rightarrow> (container list \<times> (string \<rightharpoonup> container)) option" where
  "refreshStep pf inspectMap acc entry =
     (case acc of
        None \<Rightarrow> None
      | Some (lst, m) \<Rightarrow>
          (case entry of
             None \<Rightarrow> None
           | Some e \<Rightarrow>
               (let det = (case ID e of Some i \<Rightarrow> inspectMap i | None \<Rightarrow> None)
                in case buildContainerFromPsAndInspect pf e det of
                     None \<Rightarrow> Some (lst, m)
                   | Some obj \<Rightarrow>
                       Some (lst @ [obj],
                             if id_c obj \<noteq> [] then m(id_c obj \<mapsto> obj) else m))))"

definition psAllCommand :: string where
  "psAllCommand = ''docker ps -a --format '' @ [CHR 0x27] @ ''{{json .}}'' @ [CHR 0x27]
     @ '' --no-trunc || true''"

text \<open>
  \<open>fullContainersRefresh\<close>. Its \<open>catch\<close> takes a failed command and a throw of the loop
  alike: it sets \<open>initialised\<close> and leaves the list and the map of the cache as they are.
\<close>

definition fullContainersRefresh :: "platform \<Rightarrow> containers_cache \<Rightarrow> containers_cache" where
  "fullContainersRefresh pf containersCache =
     (case run pf psAllCommand of
        Inl err \<Rightarrow> containersCache\<lparr> initialised := True \<rparr>
      | Inr stdout \<Rightarrow>
          if stdout = [] \<or> trim stdout = []
          then \<lparr> initialised = True, list_c = [], byId = Map.empty \<rparr>
          else (let psEntries = psEntriesOf pf stdout;
                    ids = idsOf psEntries;
                    inspectMap = (if ids \<noteq> [] then inspectContainers pf ids else Map.empty)
                in case foldl (refreshStep pf inspectMap) (Some ([], Map.empty)) psEntries of
                     None \<Rightarrow> containersCache\<lparr> initialised := True \<rparr>
                   | Some (lst, m) \<Rightarrow> \<lparr> initialised = True, list_c = lst, byId = m \<rparr>))"

definition getContainersSnapshot ::
  "platform \<Rightarrow> containers_cache \<Rightarrow> container list \<times> containers_cache" where
  "getContainersSnapshot pf containersCache =
     (let cache' = (if \<not> initialised containersCache
                    then fullContainersRefresh pf containersCache else containersCache)
      in (list_c cache', cache'))"

definition psOneCommand :: "string \<Rightarrow> string" where
  "psOneCommand i = ''docker ps -a --no-trunc --filter id='' @ i @ '' --format '' @ [CHR 0x27]
     @ ''{{json .}}'' @ [CHR 0x27] @ '' || true''"

text \<open>
  \<open>refreshSingleContainer\<close>, run to its end. Every failure inside is caught and leaves
  the cache as it is; a failed \<open>docker inspect\<close> only leaves \<open>details\<close> at \<open>null\<close>. On an
  entry that parses to \<open>null\<close> the inner \<open>try\<close> catches the read of \<open>entry.ID\<close> and
  \<open>buildContainerFromPsAndInspect\<close> returns \<open>null\<close>.
\<close>

definition refreshSingleContainer :: "platform \<Rightarrow> string \<Rightarrow> containers_cache \<Rightarrow> containers_cache" where
  "refreshSingleContainer pf i containersCache =
     (if i = [] then containersCache
      else (case run pf (psOneCommand i) of
              Inl err \<Rightarrow> containersCache
            | Inr stdout \<Rightarrow>
                if stdout = [] \<or> trim stdout = [] then removeContainerFromCache i containersCache
                else (case parsePsEntry pf (trim (hd (split_on CHR 0x0A (trim stdout)))) of
                        ParseThrows \<Rightarrow> containersCache
                      | ParsedNull \<Rightarrow> containersCache
                      | ParsedEntry entry \<Rightarrow>
                          (let det =
                                 (case run pf (''docker inspect ''
                                         @ (case ID entry of Some e \<Rightarrow> e | None \<Rightarrow> ''undefined'')) of
                                    Inl err \<Rightarrow> None
                                  | Inr out \<Rightarrow>
                                      (case parseInspect pf out of
                                         Some (Some d # _) \<Rightarrow> Some d
                                       | _ \<Rightarrow> None))
                           in case buildContainerFromPsAndInspect pf entry det of
                                None \<Rightarrow> containersCache
                              | Some obj \<Rightarrow> upsertContainerInCache obj containersCache))))"

subsection \<open>Events\<close>

text \<open>
  \<open>handleDockerEventLine\<close>, with the refresh it starts run to its end. \<open>eventId\<close> and
  \<open>eventAction\<close> are its local constants \<open>id\<close> and \<open>action\<close>; \<open>handleDockerEvent\<close> is its
  body after \<open>JSON.parse\<close>.
\<close>

definition eventId :: "docker_event \<Rightarrow> string option" where
  "eventId evt = or_else (ev_id evt) (or_else (ev_ID evt) (ev_Actor_ID evt))"

definition eventAction :: "docker_event \<Rightarrow> string" where
  "eventAction evt = toLowerCase (or_str (or_else (ev_status evt) (ev_Action evt)) [])"

definition handleDockerEvent :: "platform \<Rightarrow> docker_event \<Rightarrow> containers_cache \<Rightarrow> containers_cache" where
  "handleDockerEvent pf evt containersCache =
     (if truthy (ev_Type evt) \<and> ev_Type evt \<noteq> Some ''container'' then containersCache
      else (let i = or_str (eventId evt) [];
                action = eventAction evt
            in if i = [] \<or> action = [] then containersCache
               else if includes_str action ''create''
                    \<or> includes_str action ''start''
                    \<or> includes_str action ''restart''
                    \<or> includes_str action ''rename''
                    \<or> includes_str action ''unpause''
                    \<or> includes_str action ''pause''
                    \<or> includes_str action ''die''
                    \<or> includes_str action ''stop''
               then refreshSingleContainer pf i containersCache
               else if includes_str action ''destroy'' \<or> includes_str action ''remove''
               then removeContainerFromCache i containersCache
               else containersCache))"

definition handleDockerEventLine :: "platform \<Rightarrow> string \<Rightarrow> containers_cache \<Rightarrow> containers_cache" where
  "handleDockerEventLine pf line containersCache =
     (case parseEvent pf line of
        None \<Rightarrow> containersCache
      | Some evt \<Rightarrow> handleDockerEvent pf evt containersCache)"

subsection \<open>The properties claimed of the cache and of the events\<close>

text \<open>The two sets of actions of the event classification, as the specification lists them.\<close>

definition refreshActions :: "string list" where
  "refreshActions =
     [''create'', ''start'', ''restart'', ''rename'', ''unpause'', ''pause'', ''die'', ''stop'']"

definition removeActions :: "string list" where
  "removeActions = [''destroy'', ''remove'']"



section \<open>Sample inputs\<close>

text \<open>An executor that answers the byte-counter command of interface \<open>bond0\<close>.\<close>

definition run_net :: executor where
  "run_net c = (if c = netCommand ''bond0'' then Inr ''1500 2500'' else Inl ''no such file'')"


text \<open>
  Executors for \<open>df\<close>: one whose command fails, and one whose pipeline ends with status 0
  and an empty output (what \<open>df ... | tail -n 1\<close> gives when \<open>df\<close> itself fails).
\<close>

definition run_df_fails :: executor where
  "run_df_fails c = Inl ''Command failed: df -B1 /mnt/user | tail -n 1''"

definition run_df_short :: executor where
  "run_df_short c = Inr []"

text \<open>
  Executors whose \<open>df\<close> prints a line of six fields: one with 1 TiB in all and half of it
  used, and one whose used field is not a number.
\<close>

definition run_df_ok :: executor where
  "run_df_ok c = Inr ''shfs 1099511627776 549755813888 549755813888 50% /mnt/user''"

definition run_df_garbled :: executor where
  "run_df_garbled c = Inr ''shfs 1099511627776 n/a 549755813888 50% /mnt/user''"



text \<open>
  A host with two containers. The lines of \<open>docker ps\<close> and \<open>docker events\<close> are
  stand-ins for the JSON text, which only the platform's \<open>JSON.parse\<close> reads.
\<close>

definition entry_plex :: ps_entry where
  "entry_plex = \<lparr> ID = Some ''aaa111'', Names = Some ''plex'', Image = Some ''linuxserver/plex'',
     Status = Some ''Up 3 hours'', Ports = Some ''0.0.0.0:32400->32400/tcp'',
     Labels = Some ''net.unraid.docker.webui=http://[IP]:[PORT:32400]/web'' \<rparr>"

definition entry_db :: ps_entry where
  "entry_db = \<lparr> ID = Some ''bbb222'', Names = Some ''db'', Image = Some ''postgres:16'',
     Status = Some ''Exited (0) 2 days ago'', Ports = None, Labels = None \<rparr>"

definition event_die :: docker_event where
  "event_die = \<lparr> ev_Type = Some ''container'', ev_id = Some ''aaa111'', ev_ID = None,
     ev_Actor_ID = Some ''aaa111'', ev_status = Some ''Die'', ev_Action = Some ''die'' \<rparr>"

definition event_destroy :: docker_event where
  "event_destroy = \<lparr> ev_Type = Some ''container'', ev_id = Some ''bbb222'', ev_ID = None,
     ev_Actor_ID = Some ''bbb222'', ev_status = Some ''destroy'', ev_Action = Some ''destroy'' \<rparr>"

definition event_network :: docker_event where
  "event_network = \<lparr> ev_Type = Some ''network'', ev_id = None, ev_ID = None,
     ev_Actor_ID = Some ''bbb222'', ev_status = None, ev_Action = Some ''destroy'' \<rparr>"

definition event_untyped :: docker_event where
  "event_untyped = \<lparr> ev_Type = None, ev_id = None, ev_ID = None,
     ev_Actor_ID = Some ''bbb222'', ev_status = None, ev_Action = Some ''destroy'' \<rparr>"

text \<open>
  A \<open>destroy\<close> event whose \<open>Type\<close> is the empty string, and the event of a command
  started in the container \<open>aaa111\<close>, whose action names the command.
\<close>

definition event_empty_type :: docker_event where
  "event_empty_type = \<lparr> ev_Type = Some [], ev_id = None, ev_ID = None,
     ev_Actor_ID = Some ''bbb222'', ev_status = None, ev_Action = Some ''destroy'' \<rparr>"

definition event_exec :: docker_event where
  "event_exec = \<lparr> ev_Type = Some ''container'', ev_id = None, ev_ID = None,
     ev_Actor_ID = Some ''aaa111'', ev_status = None,
     ev_Action = Some ''exec_start: /bin/sh remove-cache.sh'' \<rparr>"

definition sample_pf :: platform where
  "sample_pf = \<lparr>
     UNRAID_HOST = Some ''192.168.1.2'',
     run = (\<lambda>c. if c = psAllCommand then Inr (''{plex}'' @ [CHR 0x0A] @ ''{db}'' @ [CHR 0x0A])
                else if c = psOneCommand ''aaa111'' then Inr (''{plex}'' @ [CHR 0x0A])
                else Inl ''Command failed''),
     parsePsEntry = (\<lambda>s. if s = ''{plex}'' then ParsedEntry entry_plex
                         else if s = ''{db}'' then ParsedEntry entry_db else ParseThrows),
     parseInspect = (\<lambda>s. None),
     parseEvent = (\<lambda>s. if s = ''{die aaa111}'' then Some event_die
                       else if s = ''{destroy bbb222}'' then Some event_destroy
                       else if s = ''{network destroy}'' then Some event_network
                       else if s = ''{untyped destroy}'' then Some event_untyped
                       else if s = ''{empty type destroy}'' then Some event_empty_type
                       else if s = ''{exec_start aaa111}'' then Some event_exec
                       else None),
     urlValid = (\<lambda>s. True) \<rparr>"




definition sample_cache :: containers_cache where
  "sample_cache = fullContainersRefresh sample_pf initialCache"


section \<open>CPU percentage: range\<close>

lemma clamp_range: "lo \<le> hi \<Longrightarrow> lo \<le> clamp v lo hi \<and> clamp v lo hi \<le> hi"
  by (cases v) auto

lemma cpuUsage_range: "0 \<le> cpuUsage a b \<and> cpuUsage a b \<le> 100"
  unfolding cpuUsage_def Let_def using clamp_range [of 0 100] by simp

lemma cpuUsage_static: "total_cpu b = total_cpu a \<Longrightarrow> cpuUsage a b = 0"
  by (simp add: cpuUsage_def)

lemma cpuUsage_value:
  "total_cpu b \<noteq> total_cpu a \<Longrightarrow>
     cpuUsage a b
       = min (max ((1 - (idle b - idle a) / (total_cpu b - total_cpu a)) * 100) 0) 100"
  by (simp add: cpuUsage_def Let_def)

text \<open>
  C7, as the code has it: for every pair of CPU counter samples the returned percentage
  lies in \<open>[0, 100]\<close>, in both copies of \<open>collectCpuPercent\<close>; it is \<open>0\<close> when the total
  tick delta is zero; for any other total delta, and so when the counters decrease (the
  total delta is negative, and the guard tests it against zero only), it is
  \<open>(1 - idleDelta / totalDelta) * 100\<close> clamped to \<open>[0, 100]\<close>.
\<close>

theorem cpu_percent_range:
  "(\<forall>a b. a = parseCpuLine toNumber (hd (split_on CHR 0x0A stat1))
          \<and> b = parseCpuLine toNumber (hd (split_on CHR 0x0A stat2)) \<longrightarrow>
        0 \<le> collectCpuPercent toNumber stat1 stat2
      \<and> collectCpuPercent toNumber stat1 stat2 \<le> 100
      \<and> (total_cpu b = total_cpu a \<longrightarrow> collectCpuPercent toNumber stat1 stat2 = 0)
      \<and> (total_cpu b \<noteq> total_cpu a \<longrightarrow>
            collectCpuPercent toNumber stat1 stat2
              = min (max ((1 - (idle b - idle a) / (total_cpu b - total_cpu a)) * 100) 0) 100)
      \<and> (total_cpu b < total_cpu a \<longrightarrow>
            collectCpuPercent toNumber stat1 stat2
              = min (max ((1 - (idle b - idle a) / (total_cpu b - total_cpu a)) * 100) 0) 100))
   \<and> (\<forall>line1 line2 a b. a = parseCpuLine toNumber line1 \<and> b = parseCpuLine toNumber line2 \<longrightarrow>
        (\<exists>r. collectCpuPercent_ssh toNumber (Inr line1) (Inr line2) = Inr r
            \<and> 0 \<le> r \<and> r \<le> 100
            \<and> (total_cpu b = total_cpu a \<longrightarrow> r = 0)
            \<and> (total_cpu b \<noteq> total_cpu a \<longrightarrow>
                  r = min (max ((1 - (idle b - idle a) / (total_cpu b - total_cpu a)) * 100) 0)
                        100)))"
proof (intro conjI allI impI)
  fix a b
  assume ab: "a = parseCpuLine toNumber (hd (split_on CHR 0x0A stat1))
          \<and> b = parseCpuLine toNumber (hd (split_on CHR 0x0A stat2))"
  then have c: "collectCpuPercent toNumber stat1 stat2 = cpuUsage a b"
    by (simp add: collectCpuPercent_def)
  show "0 \<le> collectCpuPercent toNumber stat1 stat2"
    unfolding c using cpuUsage_range by blast
  show "collectCpuPercent toNumber stat1 stat2 \<le> 100"
    unfolding c using cpuUsage_range by blast
  {
    assume "total_cpu b = total_cpu a"
    then show "collectCpuPercent toNumber stat1 stat2 = 0"
      unfolding c by (rule cpuUsage_static)
  }
  {
    assume "total_cpu b \<noteq> total_cpu a"
    then show "collectCpuPercent toNumber stat1 stat2
              = min (max ((1 - (idle b - idle a) / (total_cpu b - total_cpu a)) * 100) 0) 100"
      unfolding c by (rule cpuUsage_value)
  }
  {
    assume "total_cpu b < total_cpu a"
    then have "total_cpu b \<noteq> total_cpu a" by simp
    then show "collectCpuPercent toNumber stat1 stat2
              = min (max ((1 - (idle b - idle a) / (total_cpu b - total_cpu a)) * 100) 0) 100"
      unfolding c by (rule cpuUsage_value)
  }
next
  fix line1 line2 a b
  assume ab: "a = parseCpuLine toNumber line1 \<and> b = parseCpuLine toNumber line2"
  then have c: "collectCpuPercent_ssh toNumber (Inr line1) (Inr line2) = Inr (cpuUsage a b)"
    by (simp add: collectCpuPercent_ssh_def)
  have "0 \<le> cpuUsage a b \<and> cpuUsage a b \<le> 100
      \<and> (total_cpu b = total_cpu a \<longrightarrow> cpuUsage a b = 0)
      \<and> (total_cpu b \<noteq> total_cpu a \<longrightarrow>
            cpuUsage a b
              = min (max ((1 - (idle b - idle a) / (total_cpu b - total_cpu a)) * 100) 0) 100)"
    using cpuUsage_range cpuUsage_static cpuUsage_value by blast
  with c show "\<exists>r. collectCpuPercent_ssh toNumber (Inr line1) (Inr line2) = Inr r
            \<and> 0 \<le> r \<and> r \<le> 100
            \<and> (total_cpu b = total_cpu a \<longrightarrow> r = 0)
            \<and> (total_cpu b \<noteq> total_cpu a \<longrightarrow>
                  r = min (max ((1 - (idle b - idle a) / (total_cpu b - total_cpu a)) * 100) 0)
                        100)"
    by blast
qed

text \<open>
  Static counters give \<open>0\<close>; counters that go from idle 100, total 200 to idle 50, total
  100 give the clamp of \<open>(1 - (-50) / (-100)) * 100\<close>, which is 50.
\<close>

theorem cpu_percent_range_witness:
  "collectCpuPercent decimalNumber ''cpu 1 0 1 8 0 0'' ''cpu 1 0 1 8 0 0'' = 0
   \<and> total_cpu (parseCpuLine decimalNumber (hd (split_on CHR 0x0A ''cpu 0 0 0 50 0 50'')))
       < total_cpu (parseCpuLine decimalNumber (hd (split_on CHR 0x0A ''cpu 0 0 0 100 0 100'')))
   \<and> collectCpuPercent decimalNumber ''cpu 0 0 0 100 0 100'' ''cpu 0 0 0 50 0 50''
       = min (max ((1 - (50 - 100) / (100 - 200)) * 100) 0) 100
   \<and> collectCpuPercent decimalNumber ''cpu 0 0 0 100 0 100'' ''cpu 0 0 0 50 0 50'' \<le> 100
   \<and> collectCpuPercent_ssh decimalNumber (Inr ''cpu 0 0 0 100 0 100'') (Inr ''cpu 0 0 0 50 0 50'')
       = Inr (min (max ((1 - (50 - 100) / (100 - 200)) * 100) 0) 100)"
proof -
  have p0: "parseCpuLine decimalNumber (hd (split_on CHR 0x0A ''cpu 1 0 1 8 0 0''))
              = \<lparr> idle = 8, total_cpu = 10 \<rparr>"
   and p1: "parseCpuLine decimalNumber (hd (split_on CHR 0x0A ''cpu 0 0 0 100 0 100''))
              = \<lparr> idle = 100, total_cpu = 200 \<rparr>"
   and p2: "parseCpuLine decimalNumber (hd (split_on CHR 0x0A ''cpu 0 0 0 50 0 50''))
              = \<lparr> idle = 50, total_cpu = 100 \<rparr>"
   and q1: "parseCpuLine decimalNumber ''cpu 0 0 0 100 0 100'' = \<lparr> idle = 100, total_cpu = 200 \<rparr>"
   and q2: "parseCpuLine decimalNumber ''cpu 0 0 0 50 0 50'' = \<lparr> idle = 50, total_cpu = 100 \<rparr>"
    by code_simp+
  note static = cpu_percent_range
    [where toNumber = decimalNumber and ?stat1.0 = "''cpu 1 0 1 8 0 0''"
       and ?stat2.0 = "''cpu 1 0 1 8 0 0''", THEN conjunct1, rule_format,
     of "\<lparr> idle = 8, total_cpu = 10 \<rparr>" "\<lparr> idle = 8, total_cpu = 10 \<rparr>"]
  note falling = cpu_percent_range
    [where toNumber = decimalNumber and ?stat1.0 = "''cpu 0 0 0 100 0 100''"
       and ?stat2.0 = "''cpu 0 0 0 50 0 50''", THEN conjunct1, rule_format,
     of "\<lparr> idle = 100, total_cpu = 200 \<rparr>" "\<lparr> idle = 50, total_cpu = 100 \<rparr>"]
  note ssh = cpu_percent_range
    [where toNumber = decimalNumber, THEN conjunct2, rule_format,
     of "\<lparr> idle = 100, total_cpu = 200 \<rparr>" "''cpu 0 0 0 100 0 100''"
        "\<lparr> idle = 50, total_cpu = 100 \<rparr>" "''cpu 0 0 0 50 0 50''"]
  have a: "collectCpuPercent decimalNumber ''cpu 1 0 1 8 0 0'' ''cpu 1 0 1 8 0 0'' = 0"
    using static p0 by simp
  have b: "total_cpu (parseCpuLine decimalNumber (hd (split_on CHR 0x0A ''cpu 0 0 0 50 0 50'')))
       < total_cpu (parseCpuLine decimalNumber (hd (split_on CHR 0x0A ''cpu 0 0 0 100 0 100'')))"
    unfolding p1 p2 by simp
  have c: "collectCpuPercent decimalNumber ''cpu 0 0 0 100 0 100'' ''cpu 0 0 0 50 0 50''
       = min (max ((1 - (50 - 100) / (100 - 200)) * 100) 0) 100"
   and d: "collectCpuPercent decimalNumber ''cpu 0 0 0 100 0 100'' ''cpu 0 0 0 50 0 50'' \<le> 100"
    using falling p1 p2 by simp_all
  have e: "collectCpuPercent_ssh decimalNumber (Inr ''cpu 0 0 0 100 0 100'')
             (Inr ''cpu 0 0 0 50 0 50'')
       = Inr (min (max ((1 - (50 - 100) / (100 - 200)) * 100) 0) 100)"
    using ssh q1 q2 by auto
  from a b c d e show ?thesis by blast
qed

text \<open>
  The counters of the second sample are lower than those of the first (idle 100 to 50,
  total 200 to 100): the result is 50, not 0.
\<close>

theorem cpu_percent_decreasing_counterexample:
  "total_cpu (parseCpuLine decimalNumber ''cpu 0 0 0 50 0 50'')
     < total_cpu (parseCpuLine decimalNumber ''cpu 0 0 0 100 0 100'')
   \<and> idle (parseCpuLine decimalNumber ''cpu 0 0 0 50 0 50'')
     < idle (parseCpuLine decimalNumber ''cpu 0 0 0 100 0 100'')
   \<and> collectCpuPercent decimalNumber ''cpu 0 0 0 100 0 100'' ''cpu 0 0 0 50 0 50'' = 50
   \<and> collectCpuPercent decimalNumber ''cpu 0 0 0 100 0 100'' ''cpu 0 0 0 50 0 50'' \<noteq> 0"
  by code_simp

section \<open>Network rates: a sample with no elapsed time\<close>

lemma netRates_nonpositive:
  "iface l = INTERFACE \<Longrightarrow> now \<le> ts l \<Longrightarrow> netRates INTERFACE rx tx now (Some l) = (None, None)"
  by (simp add: netRates_def Let_def)

lemma netRates_ssh_nonpositive:
  "s_interface l = i \<Longrightarrow> now \<le> s_timestamp l \<Longrightarrow>
   netRates_ssh i rx tx now (Some l)
     = (Some (max (rx - s_rxBytes l) 0 * 8 / (1 / 1000) / 1000000),
        Some (max (tx - s_txBytes l) 0 * 8 / (1 / 1000) / 1000000))"
  by (simp add: netRates_ssh_def Let_def max_def)

lemma collectNetworkStats_ssh_success:
  assumes "collectNetworkStats_ssh networkInterface run_cmd now prev = (Inr st, sample')"
  shows "r_rxRateMbps st = fst (netRates_ssh (r_interface st) (r_rxBytes st) (r_txBytes st) now prev)
       \<and> r_txRateMbps st = snd (netRates_ssh (r_interface st) (r_rxBytes st) (r_txBytes st) now prev)
       \<and> sample' = Some \<lparr> s_interface = r_interface st, s_rxBytes = r_rxBytes st,
                            s_txBytes = r_txBytes st, s_timestamp = now \<rparr>"
  using assms unfolding collectNetworkStats_ssh_def Let_def
  by (auto split: sum.splits jsnum.splits)

text \<open>
  C1, as the code has it: when a prior sample exists for the same interface and the
  elapsed time is zero or negative, \<open>ws-server/server.mjs\<close> returns \<open>null\<close> rates and
  \<open>src/preload.js\<close> returns the rates of the clamped byte deltas over one millisecond;
  both replace the stored sample by the new reading, so the next sample is measured
  against the new reading.
\<close>

theorem network_nonpositive_elapsed:
  "(iface l = INTERFACE \<and> now \<le> ts l \<longrightarrow>
      collectNetworkStats INTERFACE (Some (rxText, txText)) now (Some l)
        = (Some \<lparr> interface = INTERFACE, rxMbps = None, txMbps = None,
                   rxRateMbps = None, txRateMbps = None \<rparr>,
           Some \<lparr> iface = INTERFACE, rxBytes = parseInt rxText, txBytes = parseInt txText,
                   ts = now \<rparr>))
   \<and> (\<forall>st sample'.
         collectNetworkStats_ssh networkInterface run_cmd now (Some s) = (Inr st, sample')
         \<and> s_interface s = r_interface st \<and> now \<le> s_timestamp s \<longrightarrow>
           r_rxRateMbps st = Some (max (r_rxBytes st - s_rxBytes s) 0 * 8 / (1 / 1000) / 1000000)
         \<and> r_txRateMbps st = Some (max (r_txBytes st - s_txBytes s) 0 * 8 / (1 / 1000) / 1000000)
         \<and> sample' = Some \<lparr> s_interface = r_interface st, s_rxBytes = r_rxBytes st,
                              s_txBytes = r_txBytes st, s_timestamp = now \<rparr>)"
proof (intro conjI impI allI)
  assume "iface l = INTERFACE \<and> now \<le> ts l"
  then show "collectNetworkStats INTERFACE (Some (rxText, txText)) now (Some l)
        = (Some \<lparr> interface = INTERFACE, rxMbps = None, txMbps = None,
                   rxRateMbps = None, txRateMbps = None \<rparr>,
           Some \<lparr> iface = INTERFACE, rxBytes = parseInt rxText, txBytes = parseInt txText,
                   ts = now \<rparr>)"
    by (simp add: collectNetworkStats_def Let_def netRates_nonpositive)
next
  fix st sample'
  assume a: "collectNetworkStats_ssh networkInterface run_cmd now (Some s) = (Inr st, sample')
         \<and> s_interface s = r_interface st \<and> now \<le> s_timestamp s"
  then have r: "netRates_ssh (r_interface st) (r_rxBytes st) (r_txBytes st) now (Some s)
     = (Some (max (r_rxBytes st - s_rxBytes s) 0 * 8 / (1 / 1000) / 1000000),
        Some (max (r_txBytes st - s_txBytes s) 0 * 8 / (1 / 1000) / 1000000))"
    using netRates_ssh_nonpositive by blast
  from a have c: "collectNetworkStats_ssh networkInterface run_cmd now (Some s) = (Inr st, sample')"
    by simp
  show "r_rxRateMbps st = Some (max (r_rxBytes st - s_rxBytes s) 0 * 8 / (1 / 1000) / 1000000)"
    using collectNetworkStats_ssh_success [OF c] r by simp
  show "r_txRateMbps st = Some (max (r_txBytes st - s_txBytes s) 0 * 8 / (1 / 1000) / 1000000)"
    using collectNetworkStats_ssh_success [OF c] r by simp
  show "sample' = Some \<lparr> s_interface = r_interface st, s_rxBytes = r_rxBytes st,
                              s_txBytes = r_txBytes st, s_timestamp = now \<rparr>"
    using collectNetworkStats_ssh_success [OF c] by simp
qed

text \<open>
  A second reading at the time of the stored one (5000 ms), in both files: the stored
  sample becomes the new reading.
\<close>

theorem network_nonpositive_elapsed_witness:
  "collectNetworkStats ''bond0'' (Some (''1500'', ''2500'')) 5000
      (Some \<lparr> iface = ''bond0'', rxBytes = Num 1000, txBytes = Num 2000, ts = 5000 \<rparr>)
     = (Some \<lparr> interface = ''bond0'', rxMbps = None, txMbps = None,
                 rxRateMbps = None, txRateMbps = None \<rparr>,
        Some \<lparr> iface = ''bond0'', rxBytes = Num 1500, txBytes = Num 2500, ts = 5000 \<rparr>)
   \<and> collectNetworkStats_ssh (Some ''bond0'') run_net 5000
        (Some \<lparr> s_interface = ''bond0'', s_rxBytes = 1000, s_txBytes = 2000, s_timestamp = 5000 \<rparr>)
     = (Inr \<lparr> r_interface = ''bond0'', r_rxBytes = 1500, r_txBytes = 2500,
                r_rxRateMbps = Some 4, r_txRateMbps = Some 4 \<rparr>,
        Some \<lparr> s_interface = ''bond0'', s_rxBytes = 1500, s_txBytes = 2500, s_timestamp = 5000 \<rparr>)
   \<and> r_rxRateMbps \<lparr> r_interface = ''bond0'', r_rxBytes = 1500, r_txBytes = 2500,
                r_rxRateMbps = Some 4, r_txRateMbps = Some 4 \<rparr>
     = Some (max (1500 - 1000) 0 * 8 / (1 / 1000) / 1000000)"
proof -
  have p1: "parseInt ''1500'' = Num 1500" and p2: "parseInt ''2500'' = Num 2500"
    by code_simp+
  have ws: "collectNetworkStats ''bond0'' (Some (''1500'', ''2500'')) 5000
      (Some \<lparr> iface = ''bond0'', rxBytes = Num 1000, txBytes = Num 2000, ts = 5000 \<rparr>)
     = (Some \<lparr> interface = ''bond0'', rxMbps = None, txMbps = None,
                 rxRateMbps = None, txRateMbps = None \<rparr>,
        Some \<lparr> iface = ''bond0'', rxBytes = Num 1500, txBytes = Num 2500, ts = 5000 \<rparr>)"
    using network_nonpositive_elapsed
      [of "\<lparr> iface = ''bond0'', rxBytes = Num 1000, txBytes = Num 2000, ts = 5000 \<rparr>"
          "''bond0''" 5000 "''1500''" "''2500''", THEN conjunct1] p1 p2
    by simp
  have run: "collectNetworkStats_ssh (Some ''bond0'') run_net 5000
        (Some \<lparr> s_interface = ''bond0'', s_rxBytes = 1000, s_txBytes = 2000, s_timestamp = 5000 \<rparr>)
     = (Inr \<lparr> r_interface = ''bond0'', r_rxBytes = 1500, r_txBytes = 2500,
                r_rxRateMbps = Some 4, r_txRateMbps = Some 4 \<rparr>,
        Some \<lparr> s_interface = ''bond0'', s_rxBytes = 1500, s_txBytes = 2500, s_timestamp = 5000 \<rparr>)"
    by code_simp
  have ssh: "r_rxRateMbps \<lparr> r_interface = ''bond0'', r_rxBytes = 1500, r_txBytes = 2500,
                r_rxRateMbps = Some 4, r_txRateMbps = Some 4 \<rparr>
     = Some (max (1500 - 1000) 0 * 8 / (1 / 1000) / 1000000)"
    using network_nonpositive_elapsed
      [where networkInterface = "Some ''bond0''" and run_cmd = run_net and now = 5000
         and s = "\<lparr> s_interface = ''bond0'', s_rxBytes = 1000, s_txBytes = 2000,
                    s_timestamp = 5000 \<rparr>"]
      run
    by simp
  from ws run ssh show ?thesis by blast
qed

text \<open>
  In \<open>ws-server/server.mjs\<close> a reading at the time of the stored sample overwrites it:
  the sample after it (at 6000 ms, 2000 and 3000 bytes) is measured against the
  overwriting reading (0.004 Mbps) and not against the original one (0.008 Mbps).
\<close>

theorem network_nonpositive_elapsed_counterexample:
  "snd (collectNetworkStats ''bond0'' (Some (''1500'', ''2500'')) 5000
          (Some \<lparr> iface = ''bond0'', rxBytes = Num 1000, txBytes = Num 2000, ts = 5000 \<rparr>))
     \<noteq> Some \<lparr> iface = ''bond0'', rxBytes = Num 1000, txBytes = Num 2000, ts = 5000 \<rparr>
   \<and> snd (collectNetworkStats ''bond0'' (Some (''1500'', ''2500'')) 5000
          (Some \<lparr> iface = ''bond0'', rxBytes = Num 1000, txBytes = Num 2000, ts = 5000 \<rparr>))
     = Some \<lparr> iface = ''bond0'', rxBytes = Num 1500, txBytes = Num 2500, ts = 5000 \<rparr>
   \<and> fst (collectNetworkStats ''bond0'' (Some (''2000'', ''3000'')) 6000
          (snd (collectNetworkStats ''bond0'' (Some (''1500'', ''2500'')) 5000
             (Some \<lparr> iface = ''bond0'', rxBytes = Num 1000, txBytes = Num 2000, ts = 5000 \<rparr>))))
     = Some \<lparr> interface = ''bond0'', rxMbps = Some (Num (1 / 250)), txMbps = Some (Num (1 / 250)),
                rxRateMbps = Some (Num (1 / 250)), txRateMbps = Some (Num (1 / 250)) \<rparr>
   \<and> fst (collectNetworkStats ''bond0'' (Some (''2000'', ''3000'')) 6000
          (Some \<lparr> iface = ''bond0'', rxBytes = Num 1000, txBytes = Num 2000, ts = 5000 \<rparr>))
     = Some \<lparr> interface = ''bond0'', rxMbps = Some (Num (1 / 125)), txMbps = Some (Num (1 / 125)),
                rxRateMbps = Some (Num (1 / 125)), txRateMbps = Some (Num (1 / 125)) \<rparr>"
  by code_simp

section \<open>Network rates: a counter that went back\<close>

lemma netRates_ssh_positive:
  "s_interface l = i \<Longrightarrow> s_timestamp l < now \<Longrightarrow>
   netRates_ssh i rx tx now (Some l)
     = (Some (max (rx - s_rxBytes l) 0 * 8 / (of_int (now - s_timestamp l) / 1000) / 1000000),
        Some (max (tx - s_txBytes l) 0 * 8 / (of_int (now - s_timestamp l) / 1000) / 1000000))"
proof -
  assume i: "s_interface l = i" and t: "s_timestamp l < now"
  then have m: "max (now - s_timestamp l) 1 = now - s_timestamp l"
    by simp
  have p: "(0::rat) < of_int (now - s_timestamp l) / 1000"
    using t by simp
  show ?thesis
    unfolding netRates_ssh_def Let_def m using i p by simp
qed

text \<open>
  \<open>src/preload.js\<close> does what C2 says: with positive elapsed time the rates are
  \<open>clamp(\<Delta>bytes, 0) * 8 / \<Delta>t / 1e6\<close>, and they are not negative.
\<close>

lemma collectNetworkStats_ssh_rate:
  assumes "collectNetworkStats_ssh networkInterface run_cmd now (Some s) = (Inr st, sample')"
      and "s_interface s = r_interface st" and "s_timestamp s < now"
  shows "r_rxRateMbps st
           = Some (max (r_rxBytes st - s_rxBytes s) 0 * 8 / (of_int (now - s_timestamp s) / 1000) / 1000000)
       \<and> r_txRateMbps st
           = Some (max (r_txBytes st - s_txBytes s) 0 * 8 / (of_int (now - s_timestamp s) / 1000) / 1000000)
       \<and> 0 \<le> the (r_rxRateMbps st) \<and> 0 \<le> the (r_txRateMbps st)"
proof -
  have p: "(0::rat) < of_int (now - s_timestamp s) / 1000"
    using assms(3) by simp
  have "0 \<le> max (r_rxBytes st - s_rxBytes s) 0 * 8 / (of_int (now - s_timestamp s) / 1000) / 1000000"
   and "0 \<le> max (r_txBytes st - s_txBytes s) 0 * 8 / (of_int (now - s_timestamp s) / 1000) / 1000000"
    using p by (simp_all add: divide_nonneg_pos)
  then show ?thesis
    using collectNetworkStats_ssh_success [OF assms(1)] netRates_ssh_positive [OF assms(2,3)]
    by simp
qed

text \<open>
  C2 fails in \<open>ws-server/server.mjs\<close>, which does not clamp the byte delta: the stored
  sample has 1000 received bytes at 0 ms, the counter reads 0 at 1000 ms (a reset), and
  the returned receive rate is \<open>(0 - 1000) * 8 / 1 / 1e6 = -0.008\<close> Mbps.
\<close>

theorem server_rate_negative_on_counter_reset:
  "fst (collectNetworkStats ''bond0'' (Some (''0'', ''500'')) 1000
          (Some \<lparr> iface = ''bond0'', rxBytes = Num 1000, txBytes = Num 500, ts = 0 \<rparr>))
     = Some \<lparr> interface = ''bond0'', rxMbps = Some (Num (- (1 / 125))), txMbps = Some (Num 0),
                rxRateMbps = Some (Num (- (1 / 125))), txRateMbps = Some (Num 0) \<rparr>"
  by code_simp

section \<open>Array usage: failures\<close>

lemma arrayUsageOfDf_short:
  "length (split_ws (trim out)) < 5 \<Longrightarrow>
     arrayUsageOfDf toNumber out = \<lparr> totalTb = 0, usedTb = 0, usedPercent = 0 \<rparr>"
  by (simp add: arrayUsageOfDf_def Let_def)

lemma arrayUsageOfDf_fields:
  assumes "5 \<le> length (split_ws (trim out))"
  shows "arrayUsageOfDf toNumber out =
     \<lparr> totalTb = round2 (Num (or0 (toNumber (split_ws (trim out) ! 1))
                              / 1024 / 1024 / 1024 / 1024)),
       usedTb = round2 (Num (or0 (toNumber (split_ws (trim out) ! 2))
                              / 1024 / 1024 / 1024 / 1024)),
       usedPercent = clamp
         (if endsWith (split_ws (trim out) ! 4) ''%''
          then toNumber (butlast (split_ws (trim out) ! 4))
          else Num (if or0 (toNumber (split_ws (trim out) ! 1)) = 0 then 0
                    else or0 (toNumber (split_ws (trim out) ! 2))
                         / or0 (toNumber (split_ws (trim out) ! 1)) * 100)) 0 100 \<rparr>"
proof -
  have e: "\<not> endsWith [] ''%''"
    by (simp add: endsWith_def startsWith_def)
  have "parts ! 4 \<noteq> [] \<and> endsWith (parts ! 4) ''%'' \<longleftrightarrow> endsWith (parts ! 4) ''%''"
    for parts :: "string list"
    using e by auto
  with assms show ?thesis
    by (simp add: arrayUsageOfDf_def Let_def)
qed

lemma round2_zero: "round2 (Num 0) = 0"
  by (simp add: floor_eq_iff)

text \<open>
  C4, as the code has it: when the command fails the collector returns \<open>null\<close>; when
  the output has fewer than five fields it returns \<open>{totalTb: 0, usedTb: 0,
  usedPercent: 0}\<close>; when the output has five fields or more, \<open>totalTb\<close> is the second
  field in TiB rounded to two places, \<open>usedTb\<close> the third field likewise, each of them 0
  when its own field is not a number, and \<open>usedPercent\<close> is the clamp to \<open>[0, 100]\<close> of
  the number before the \<open>%\<close> of the fifth field (0 when that is not a number), or, when
  the fifth field does not end with \<open>%\<close>, of used / total * 100 (0 when the total is 0).
  It never fails: the model has no error result.
\<close>

theorem array_usage_failure:
  "(run_cmd ''df -B1 /mnt/user | tail -n 1'' = Inl err \<longrightarrow> collectArrayUsage toNumber run_cmd = None)
   \<and> (run_cmd ''df -B1 /mnt/user | tail -n 1'' = Inr out \<and> length (split_ws (trim out)) < 5 \<longrightarrow>
        collectArrayUsage toNumber run_cmd = Some \<lparr> totalTb = 0, usedTb = 0, usedPercent = 0 \<rparr>)
   \<and> (run_cmd ''df -B1 /mnt/user | tail -n 1'' = Inr out \<and> 5 \<le> length (split_ws (trim out)) \<longrightarrow>
        (\<exists>u. collectArrayUsage toNumber run_cmd = Some u
             \<and> totalTb u = round2 (Num (or0 (toNumber (split_ws (trim out) ! 1))
                                         / 1024 / 1024 / 1024 / 1024))
             \<and> usedTb u = round2 (Num (or0 (toNumber (split_ws (trim out) ! 2))
                                        / 1024 / 1024 / 1024 / 1024))
             \<and> usedPercent u = clamp
                 (if endsWith (split_ws (trim out) ! 4) ''%''
                  then toNumber (butlast (split_ws (trim out) ! 4))
                  else Num (if or0 (toNumber (split_ws (trim out) ! 1)) = 0 then 0
                            else or0 (toNumber (split_ws (trim out) ! 2))
                                 / or0 (toNumber (split_ws (trim out) ! 1)) * 100)) 0 100
             \<and> 0 \<le> usedPercent u \<and> usedPercent u \<le> 100
             \<and> (toNumber (split_ws (trim out) ! 1) = NaN \<longrightarrow> totalTb u = 0)
             \<and> (toNumber (split_ws (trim out) ! 2) = NaN \<longrightarrow> usedTb u = 0)
             \<and> (endsWith (split_ws (trim out) ! 4) ''%''
                  \<and> toNumber (butlast (split_ws (trim out) ! 4)) = NaN \<longrightarrow> usedPercent u = 0)))"
proof (intro conjI impI)
  assume "run_cmd ''df -B1 /mnt/user | tail -n 1'' = Inl err"
  then show "collectArrayUsage toNumber run_cmd = None"
    by (simp add: collectArrayUsage_def)
next
  assume "run_cmd ''df -B1 /mnt/user | tail -n 1'' = Inr out \<and> length (split_ws (trim out)) < 5"
  then show "collectArrayUsage toNumber run_cmd
               = Some \<lparr> totalTb = 0, usedTb = 0, usedPercent = 0 \<rparr>"
    by (simp add: collectArrayUsage_def arrayUsageOfDf_short)
next
  assume a: "run_cmd ''df -B1 /mnt/user | tail -n 1'' = Inr out
               \<and> 5 \<le> length (split_ws (trim out))"
  then have c: "collectArrayUsage toNumber run_cmd = Some (arrayUsageOfDf toNumber out)"
    by (simp add: collectArrayUsage_def)
  from a have f: "arrayUsageOfDf toNumber out =
     \<lparr> totalTb = round2 (Num (or0 (toNumber (split_ws (trim out) ! 1))
                              / 1024 / 1024 / 1024 / 1024)),
       usedTb = round2 (Num (or0 (toNumber (split_ws (trim out) ! 2))
                              / 1024 / 1024 / 1024 / 1024)),
       usedPercent = clamp
         (if endsWith (split_ws (trim out) ! 4) ''%''
          then toNumber (butlast (split_ws (trim out) ! 4))
          else Num (if or0 (toNumber (split_ws (trim out) ! 1)) = 0 then 0
                    else or0 (toNumber (split_ws (trim out) ! 2))
                         / or0 (toNumber (split_ws (trim out) ! 1)) * 100)) 0 100 \<rparr>"
    using arrayUsageOfDf_fields by blast
  show "\<exists>u. collectArrayUsage toNumber run_cmd = Some u
             \<and> totalTb u = round2 (Num (or0 (toNumber (split_ws (trim out) ! 1))
                                         / 1024 / 1024 / 1024 / 1024))
             \<and> usedTb u = round2 (Num (or0 (toNumber (split_ws (trim out) ! 2))
                                        / 1024 / 1024 / 1024 / 1024))
             \<and> usedPercent u = clamp
                 (if endsWith (split_ws (trim out) ! 4) ''%''
                  then toNumber (butlast (split_ws (trim out) ! 4))
                  else Num (if or0 (toNumber (split_ws (trim out) ! 1)) = 0 then 0
                            else or0 (toNumber (split_ws (trim out) ! 2))
                                 / or0 (toNumber (split_ws (trim out) ! 1)) * 100)) 0 100
             \<and> 0 \<le> usedPercent u \<and> usedPercent u \<le> 100
             \<and> (toNumber (split_ws (trim out) ! 1) = NaN \<longrightarrow> totalTb u = 0)
             \<and> (toNumber (split_ws (trim out) ! 2) = NaN \<longrightarrow> usedTb u = 0)
             \<and> (endsWith (split_ws (trim out) ! 4) ''%''
                  \<and> toNumber (butlast (split_ws (trim out) ! 4)) = NaN \<longrightarrow> usedPercent u = 0)"
    unfolding c f
    using clamp_range [of 0 100] round2_zero
    by (auto simp del: round2.simps clamp.simps simp add: clamp.simps(1))
qed

text \<open>
  A failed command gives \<open>null\<close>; an empty output gives the zero object; a line of six
  fields with 1 TiB in all and half of it used gives 1, 0.5 and 50; the same line with a
  used field that is not a number gives 1, 0 and 50.
\<close>

theorem array_usage_failure_witness:
  "run_df_fails ''df -B1 /mnt/user | tail -n 1''
     = Inl ''Command failed: df -B1 /mnt/user | tail -n 1''
   \<and> collectArrayUsage decimalNumber run_df_fails = None
   \<and> run_df_short ''df -B1 /mnt/user | tail -n 1'' = Inr []
   \<and> length (split_ws (trim [])) < 5
   \<and> collectArrayUsage decimalNumber run_df_short
        = Some \<lparr> totalTb = 0, usedTb = 0, usedPercent = 0 \<rparr>
   \<and> 5 \<le> length (split_ws (trim ''shfs 1099511627776 549755813888 549755813888 50% /mnt/user''))
   \<and> collectArrayUsage decimalNumber run_df_ok
        = Some \<lparr> totalTb = 1, usedTb = 1 / 2, usedPercent = 50 \<rparr>
   \<and> 5 \<le> length (split_ws (trim ''shfs 1099511627776 n/a 549755813888 50% /mnt/user''))
   \<and> decimalNumber (split_ws (trim ''shfs 1099511627776 n/a 549755813888 50% /mnt/user'') ! 2)
        = NaN
   \<and> collectArrayUsage decimalNumber run_df_garbled
        = Some \<lparr> totalTb = 1, usedTb = 0, usedPercent = 50 \<rparr>"
proof -
  have f: "run_df_fails ''df -B1 /mnt/user | tail -n 1''
             = Inl ''Command failed: df -B1 /mnt/user | tail -n 1''"
    by (simp add: run_df_fails_def)
  have s: "run_df_short ''df -B1 /mnt/user | tail -n 1'' = Inr []"
    by (simp add: run_df_short_def)
  have l: "length (split_ws (trim [])) < 5"
    by code_simp
  have ok: "run_df_ok ''df -B1 /mnt/user | tail -n 1''
             = Inr ''shfs 1099511627776 549755813888 549755813888 50% /mnt/user''"
    by (simp add: run_df_ok_def)
  have g: "run_df_garbled ''df -B1 /mnt/user | tail -n 1''
             = Inr ''shfs 1099511627776 n/a 549755813888 50% /mnt/user''"
    by (simp add: run_df_garbled_def)
  have pk: "split_ws (trim ''shfs 1099511627776 549755813888 549755813888 50% /mnt/user'')
              = [''shfs'', ''1099511627776'', ''549755813888'', ''549755813888'', ''50%'',
                 ''/mnt/user'']"
   and pg: "split_ws (trim ''shfs 1099511627776 n/a 549755813888 50% /mnt/user'')
              = [''shfs'', ''1099511627776'', ''n/a'', ''549755813888'', ''50%'', ''/mnt/user'']"
    by code_simp+
  have n: "decimalNumber ''1099511627776'' = Num 1099511627776"
          "decimalNumber ''549755813888'' = Num 549755813888"
          "decimalNumber ''n/a'' = NaN"
          "decimalNumber ''50'' = Num 50"
          "endsWith ''50%'' ''%''"
          "round2 (Num 1) = 1"
          "round2 (Num (1 / 2)) = 1 / 2"
          "round2 (Num 0) = 0"
    by code_simp+
  from f have a: "collectArrayUsage decimalNumber run_df_fails = None"
    using array_usage_failure
      [where run_cmd = run_df_fails and toNumber = decimalNumber
         and err = "''Command failed: df -B1 /mnt/user | tail -n 1''"]
    by simp
  from s l have b: "collectArrayUsage decimalNumber run_df_short
        = Some \<lparr> totalTb = 0, usedTb = 0, usedPercent = 0 \<rparr>"
    using array_usage_failure
      [where run_cmd = run_df_short and toNumber = decimalNumber and out = "[]"]
    by simp
  have lk: "5 \<le> length (split_ws
              (trim ''shfs 1099511627776 549755813888 549755813888 50% /mnt/user''))"
    unfolding pk by simp
  have lg: "5 \<le> length (split_ws (trim ''shfs 1099511627776 n/a 549755813888 50% /mnt/user''))"
    unfolding pg by simp
  have ng: "decimalNumber
              (split_ws (trim ''shfs 1099511627776 n/a 549755813888 50% /mnt/user'') ! 2) = NaN"
    unfolding pg using n(3) by simp
  from array_usage_failure
      [where run_cmd = run_df_ok and toNumber = decimalNumber
         and out = "''shfs 1099511627776 549755813888 549755813888 50% /mnt/user''"]
    ok lk
  obtain u where u: "collectArrayUsage decimalNumber run_df_ok = Some u"
      "totalTb u = round2 (Num (or0 (decimalNumber (split_ws (trim
          ''shfs 1099511627776 549755813888 549755813888 50% /mnt/user'') ! 1))
           / 1024 / 1024 / 1024 / 1024))"
      "usedTb u = round2 (Num (or0 (decimalNumber (split_ws (trim
          ''shfs 1099511627776 549755813888 549755813888 50% /mnt/user'') ! 2))
           / 1024 / 1024 / 1024 / 1024))"
      "usedPercent u = clamp
         (if endsWith (split_ws (trim
               ''shfs 1099511627776 549755813888 549755813888 50% /mnt/user'') ! 4) ''%''
          then decimalNumber (butlast (split_ws (trim
               ''shfs 1099511627776 549755813888 549755813888 50% /mnt/user'') ! 4))
          else Num (if or0 (decimalNumber (split_ws (trim
               ''shfs 1099511627776 549755813888 549755813888 50% /mnt/user'') ! 1)) = 0 then 0
                    else or0 (decimalNumber (split_ws (trim
               ''shfs 1099511627776 549755813888 549755813888 50% /mnt/user'') ! 2))
                         / or0 (decimalNumber (split_ws (trim
               ''shfs 1099511627776 549755813888 549755813888 50% /mnt/user'') ! 1)) * 100))
         0 100"
    by blast
  have c: "collectArrayUsage decimalNumber run_df_ok
        = Some \<lparr> totalTb = 1, usedTb = 1 / 2, usedPercent = 50 \<rparr>"
    using u unfolding pk by (cases u) (simp add: n del: round2.simps)
  from array_usage_failure
      [where run_cmd = run_df_garbled and toNumber = decimalNumber
         and out = "''shfs 1099511627776 n/a 549755813888 50% /mnt/user''"]
    g lg ng
  obtain v where v: "collectArrayUsage decimalNumber run_df_garbled = Some v"
      "totalTb v = round2 (Num (or0 (decimalNumber (split_ws (trim
          ''shfs 1099511627776 n/a 549755813888 50% /mnt/user'') ! 1))
           / 1024 / 1024 / 1024 / 1024))"
      "usedTb v = 0"
      "usedPercent v = clamp
         (if endsWith (split_ws (trim
               ''shfs 1099511627776 n/a 549755813888 50% /mnt/user'') ! 4) ''%''
          then decimalNumber (butlast (split_ws (trim
               ''shfs 1099511627776 n/a 549755813888 50% /mnt/user'') ! 4))
          else Num (if or0 (decimalNumber (split_ws (trim
               ''shfs 1099511627776 n/a 549755813888 50% /mnt/user'') ! 1)) = 0 then 0
                    else or0 (decimalNumber (split_ws (trim
               ''shfs 1099511627776 n/a 549755813888 50% /mnt/user'') ! 2))
                         / or0 (decimalNumber (split_ws (trim
               ''shfs 1099511627776 n/a 549755813888 50% /mnt/user'') ! 1)) * 100))
         0 100"
    by blast
  have d: "collectArrayUsage decimalNumber run_df_garbled
        = Some \<lparr> totalTb = 1, usedTb = 0, usedPercent = 50 \<rparr>"
    using v unfolding pg by (cases v) (simp add: n del: round2.simps)
  from f a s l b lk c lg ng d show ?thesis by blast
qed

text \<open>
  The command fails: the result is \<open>null\<close>, not the zero object. The used field does
  not parse: the result keeps the total and the percentage, and is not the zero object.
\<close>

theorem array_usage_failure_counterexample:
  "collectArrayUsage decimalNumber run_df_fails = None
   \<and> collectArrayUsage decimalNumber run_df_fails
       \<noteq> Some \<lparr> totalTb = 0, usedTb = 0, usedPercent = 0 \<rparr>
   \<and> decimalNumber (split_ws (trim ''shfs 1099511627776 n/a 549755813888 50% /mnt/user'') ! 2)
       = NaN
   \<and> collectArrayUsage decimalNumber run_df_garbled
       = Some \<lparr> totalTb = 1, usedTb = 0, usedPercent = 50 \<rparr>
   \<and> collectArrayUsage decimalNumber run_df_garbled
       \<noteq> Some \<lparr> totalTb = 0, usedTb = 0, usedPercent = 0 \<rparr>"
proof -
  have a: "collectArrayUsage decimalNumber run_df_fails = None"
    by (simp add: collectArrayUsage_def run_df_fails_def)
  have b: "decimalNumber
             (split_ws (trim ''shfs 1099511627776 n/a 549755813888 50% /mnt/user'') ! 2) = NaN"
    by code_simp
  have c: "collectArrayUsage decimalNumber run_df_garbled
       = Some \<lparr> totalTb = 1, usedTb = 0, usedPercent = 50 \<rparr>"
    by code_simp
  from a b c show ?thesis by simp
qed

section \<open>Virtual machines: the cache\<close>






section \<open>Container ports: examples\<close>

lemma ports_example_with_host_ip:
  "parseDockerPorts ''0.0.0.0:8080->80/tcp''
     = [PortMapping ''0.0.0.0'' ''8080'' ''80'' ''tcp'' ''8080->80/tcp'']"
  by code_simp

lemma ports_example_unparsable:
  "parseDockerPorts ''80/tcp'' = [PortDisplay ''80/tcp'']"
  by code_simp

text \<open>
  C3 fails where the host address is omitted: on \<open>8080->80/tcp\<close> the first group
  \<open>([^:]+)?\<close> takes \<open>808\<close>, the optional colon is absent and \<open>(\d+)\<close> is left with the
  last digit, so \<open>hostPort\<close> is \<open>0\<close> and \<open>display\<close> is \<open>0->80/tcp\<close>.
\<close>

theorem ports_without_host_ip:
  "parseDockerPorts ''8080->80/tcp''
     = [PortMapping ''0.0.0.0'' ''0'' ''80'' ''tcp'' ''0->80/tcp'']"
  by code_simp

section \<open>The container cache: invariants\<close>

subsection \<open>The built container and the index search\<close>

lemma build_Some_id:
  "buildContainerFromPsAndInspect pf entry det = Some c \<Longrightarrow>
     truthy (ID entry) \<and> id_c c = or_str (ID entry) [] \<and> id_c c \<noteq> []"
  by (auto simp: buildContainerFromPsAndInspect_def Let_def truthy_def or_str_def
           split: if_splits option.splits)

lemma build_None_iff:
  "buildContainerFromPsAndInspect pf entry det = None \<longleftrightarrow> \<not> truthy (ID entry)"
  by (simp add: buildContainerFromPsAndInspect_def Let_def)

lemma findIndex_None_iff: "findIndex p xs = None \<longleftrightarrow> (\<forall>x\<in>set xs. \<not> p x)"
  by (induction xs) auto



lemma findIndex_ids:
  "findIndex (\<lambda>x. id_c x = id_c c) xs = Some i \<Longrightarrow> map id_c (xs[i := c]) = map id_c xs"
  by (induction xs arbitrary: i) (auto split: if_splits)

lemma findIndex_set:
  "findIndex (\<lambda>x. id_c x = id_c c) xs = Some i \<Longrightarrow> set (xs[i := c]) \<subseteq> insert c (set xs)"
  by (rule set_update_subset_insert)


lemma append_map_of:
  "id_c c \<notin> set (map id_c xs) \<Longrightarrow>
     map_of (map (\<lambda>c. (id_c c, c)) (xs @ [c]))
       = (map_of (map (\<lambda>c. (id_c c, c)) xs))(id_c c \<mapsto> c)"
  by (induction xs) (auto simp: fun_eq_iff)



subsection \<open>Upsert\<close>


lemma upsert_list_cases:
  "list_c (upsertContainerInCache c cache)
     = (case findIndex (\<lambda>x. id_c x = id_c c) (list_c cache) of
          Some i \<Rightarrow> (list_c cache)[i := c]
        | None \<Rightarrow> list_c cache @ [c])"
  by (simp add: upsertContainerInCache_def Let_def)




lemma distinct_ids_unique:
  "distinct (map id_c xs) \<Longrightarrow> x \<in> set xs \<Longrightarrow> y \<in> set xs \<Longrightarrow> id_c x = id_c y \<Longrightarrow> x = y"
  by (meson distinct_map inj_onD)



subsection \<open>Remove\<close>




subsection \<open>Refresh of one container\<close>






subsection \<open>Events\<close>





subsection \<open>Full refresh\<close>

lemma idsOf_Nil: "idsOf [] = []"
  by (simp add: idsOf_def)

lemma idsOf_entry:
  "idsOf (Some e # es) = (if truthy (ID e) then or_str (ID e) [] # idsOf es else idsOf es)"
  by (simp add: idsOf_def)

lemma refreshStep_entry:
  "refreshStep pf im (Some (l, m)) (Some e)
     = Some (case buildContainerFromPsAndInspect pf e
                     (case ID e of Some i \<Rightarrow> im i | None \<Rightarrow> None) of
               Some obj \<Rightarrow> (l @ [obj], m(id_c obj \<mapsto> obj))
             | None \<Rightarrow> (l, m))"
  by (auto simp: refreshStep_def Let_def split: option.splits dest: build_Some_id)




lemma refreshLoop_returns:
  assumes "None \<notin> set es"
  shows "\<exists>l' m'. foldl (refreshStep pf im) (Some (l, m)) es = Some (l', m')
          \<and> map id_c l' = map id_c l @ idsOf es
          \<and> (list_all (\<lambda>c. id_c c \<noteq> []) l \<longrightarrow> list_all (\<lambda>c. id_c c \<noteq> []) l')
          \<and> (distinct (map id_c l @ idsOf es) \<and> m = map_of (map (\<lambda>c. (id_c c, c)) l)
               \<longrightarrow> m' = map_of (map (\<lambda>c. (id_c c, c)) l'))"
  using assms
proof (induction es arbitrary: l m)
  case Nil
  then show ?case by (simp add: idsOf_Nil)
next
  case (Cons x es)
  from Cons.prems obtain e where x: "x = Some e" and es: "None \<notin> set es"
    by (cases x) auto
  show ?case
  proof (cases "truthy (ID e)")
    case False
    then have s: "refreshStep pf im (Some (l, m)) (Some e) = Some (l, m)"
      by (simp add: refreshStep_entry build_None_iff [THEN iffD2])
    from False have i: "idsOf (Some e # es) = idsOf es"
      by (simp add: idsOf_entry)
    from Cons.IH [OF es, of l m] show ?thesis
      unfolding x foldl_Cons s i .
  next
    case True
    then obtain c where b: "buildContainerFromPsAndInspect pf e
        (case ID e of Some i \<Rightarrow> im i | None \<Rightarrow> None) = Some c"
      using build_None_iff [of pf e] by (metis option.exhaust)
    then have idc: "id_c c = or_str (ID e) []" "id_c c \<noteq> []"
      using build_Some_id by blast+
    from b have s: "refreshStep pf im (Some (l, m)) (Some e)
                      = Some (l @ [c], m(id_c c \<mapsto> c))"
      by (simp add: refreshStep_entry)
    from True idc have i: "idsOf (Some e # es) = id_c c # idsOf es"
      by (simp add: idsOf_entry)
    from Cons.IH [OF es, of "l @ [c]" "m(id_c c \<mapsto> c)"]
    obtain l' m' where r:
        "foldl (refreshStep pf im) (Some (l @ [c], m(id_c c \<mapsto> c))) es = Some (l', m')"
        "map id_c l' = map id_c (l @ [c]) @ idsOf es"
        "list_all (\<lambda>c. id_c c \<noteq> []) (l @ [c]) \<longrightarrow> list_all (\<lambda>c. id_c c \<noteq> []) l'"
        "distinct (map id_c (l @ [c]) @ idsOf es)
           \<and> m(id_c c \<mapsto> c) = map_of (map (\<lambda>c. (id_c c, c)) (l @ [c]))
           \<longrightarrow> m' = map_of (map (\<lambda>c. (id_c c, c)) l')"
      by blast
    have 1: "map id_c l' = map id_c l @ id_c c # idsOf es"
      using r(2) by simp
    have 2: "list_all (\<lambda>c. id_c c \<noteq> []) l \<longrightarrow> list_all (\<lambda>c. id_c c \<noteq> []) l'"
      using r(3) idc(2) by simp
    have 3: "m' = map_of (map (\<lambda>c. (id_c c, c)) l')"
      if d: "distinct (map id_c l @ id_c c # idsOf es)"
        and m: "m = map_of (map (\<lambda>c. (id_c c, c)) l)"
    proof -
      from d have n: "id_c c \<notin> set (map id_c l)" by auto
      from d have "distinct (map id_c (l @ [c]) @ idsOf es)" by auto
      moreover have "m(id_c c \<mapsto> c) = map_of (map (\<lambda>c. (id_c c, c)) (l @ [c]))"
        unfolding m using append_map_of [OF n] by simp
      ultimately show ?thesis using r(4) by blast
    qed
    from r(1) 1 2 3 show ?thesis
      unfolding x foldl_Cons s i by blast
  qed
qed

lemma psEntriesOf_blank:
  assumes "stdout = [] \<or> trim stdout = []"
  shows "psEntriesOf pf stdout = []"
proof -
  from assms have "trim stdout = []" by (auto simp: trim_def)
  moreover have "trim [] = []" by (simp add: trim_def)
  ultimately show ?thesis
    by (simp add: psEntriesOf_def)
qed



lemma fullRefresh_returns:
  assumes "run pf psAllCommand = Inr stdout" and "None \<notin> set (psEntriesOf pf stdout)"
  shows "initialised (fullContainersRefresh pf cache)
       \<and> map id_c (list_c (fullContainersRefresh pf cache)) = idsOf (psEntriesOf pf stdout)
       \<and> list_all (\<lambda>c. id_c c \<noteq> []) (list_c (fullContainersRefresh pf cache))
       \<and> (distinct (idsOf (psEntriesOf pf stdout)) \<longrightarrow>
            byId (fullContainersRefresh pf cache)
              = map_of (map (\<lambda>c. (id_c c, c)) (list_c (fullContainersRefresh pf cache))))"
proof (cases "stdout = [] \<or> trim stdout = []")
  case True
  then have "psEntriesOf pf stdout = []"
    by (rule psEntriesOf_blank)
  with assms(1) True show ?thesis
    by (auto simp: fullContainersRefresh_def idsOf_Nil)
next
  case False
  define im where "im = (if idsOf (psEntriesOf pf stdout) \<noteq> []
      then inspectContainers pf (idsOf (psEntriesOf pf stdout)) else Map.empty)"
  from refreshLoop_returns [OF assms(2), of pf im "[]" Map.empty]
  obtain l' m' where r:
      "foldl (refreshStep pf im) (Some ([], Map.empty)) (psEntriesOf pf stdout) = Some (l', m')"
      "map id_c l' = idsOf (psEntriesOf pf stdout)"
      "list_all (\<lambda>c. id_c c \<noteq> []) l'"
      "distinct (idsOf (psEntriesOf pf stdout)) \<longrightarrow> m' = map_of (map (\<lambda>c. (id_c c, c)) l')"
    by auto
  from assms(1) False r(1)
  have "fullContainersRefresh pf cache = \<lparr> initialised = True, list_c = l', byId = m' \<rparr>"
    by (simp add: fullContainersRefresh_def Let_def im_def)
  with r(2,3,4) show ?thesis
    by simp
qed




subsection \<open>The sample hosts\<close>

lemma sample_listing:
  "run sample_pf psAllCommand = Inr (''{plex}'' @ [CHR 0x0A] @ ''{db}'' @ [CHR 0x0A])
   \<and> None \<notin> set (psEntriesOf sample_pf (''{plex}'' @ [CHR 0x0A] @ ''{db}'' @ [CHR 0x0A]))
   \<and> idsOf (psEntriesOf sample_pf (''{plex}'' @ [CHR 0x0A] @ ''{db}'' @ [CHR 0x0A]))
       = [''aaa111'', ''bbb222'']"
proof -
  have "run sample_pf psAllCommand = Inr (''{plex}'' @ [CHR 0x0A] @ ''{db}'' @ [CHR 0x0A])"
    by (simp add: sample_pf_def)
  moreover
  have "None \<notin> set (psEntriesOf sample_pf (''{plex}'' @ [CHR 0x0A] @ ''{db}'' @ [CHR 0x0A]))"
       "idsOf (psEntriesOf sample_pf (''{plex}'' @ [CHR 0x0A] @ ''{db}'' @ [CHR 0x0A]))
          = [''aaa111'', ''bbb222'']"
    by code_simp+
  ultimately show ?thesis by blast
qed




lemma sample_cache_ids: "map id_c (list_c sample_cache) = [''aaa111'', ''bbb222'']"
proof -
  from sample_listing
  have r: "run sample_pf psAllCommand = Inr (''{plex}'' @ [CHR 0x0A] @ ''{db}'' @ [CHR 0x0A])"
   and n: "None \<notin> set (psEntriesOf sample_pf
                          (''{plex}'' @ [CHR 0x0A] @ ''{db}'' @ [CHR 0x0A]))"
   and i: "idsOf (psEntriesOf sample_pf (''{plex}'' @ [CHR 0x0A] @ ''{db}'' @ [CHR 0x0A]))
             = [''aaa111'', ''bbb222'']"
    by blast+
  from fullRefresh_returns [OF r n, of initialCache] i show ?thesis
    unfolding sample_cache_def by metis
qed


lemma upsert_ids:
  "map id_c (list_c (upsertContainerInCache c cache))
     = (if id_c c \<in> set (map id_c (list_c cache)) then map id_c (list_c cache)
        else map id_c (list_c cache) @ [id_c c])"
proof (cases "findIndex (\<lambda>x. id_c x = id_c c) (list_c cache)")
  case None
  then have "id_c c \<notin> set (map id_c (list_c cache))"
    by (auto simp: findIndex_None_iff)
  with None show ?thesis
    by (simp add: upsert_list_cases)
next
  case (Some i)
  then have "findIndex (\<lambda>x. id_c x = id_c c) (list_c cache) \<noteq> None" by simp
  then have "id_c c \<in> set (map id_c (list_c cache))"
    unfolding findIndex_None_iff by (auto intro: rev_image_eqI)
  with Some show ?thesis
    by (simp add: upsert_list_cases findIndex_ids)
qed

lemma remove_ids:
  "i \<noteq> [] \<Longrightarrow>
     map id_c (list_c (removeContainerFromCache i cache))
       = filter (\<lambda>k. k \<noteq> i) (map id_c (list_c cache))"
  by (simp add: removeContainerFromCache_def filter_map comp_def)


lemma refreshSingle_sample:
  "\<exists>c. id_c c = ''aaa111''
     \<and> refreshSingleContainer sample_pf ''aaa111'' cache = upsertContainerInCache c cache"
proof -
  have r: "run sample_pf (psOneCommand ''aaa111'') = Inr (''{plex}'' @ [CHR 0x0A])"
  proof -
    have "psOneCommand ''aaa111'' \<noteq> psAllCommand" by code_simp
    then show ?thesis by (simp add: sample_pf_def)
  qed
  have n: "\<not> (''{plex}'' @ [CHR 0x0A] = [] \<or> trim (''{plex}'' @ [CHR 0x0A]) = [])"
    by code_simp
  have p: "parsePsEntry sample_pf
             (trim (hd (split_on CHR 0x0A (trim (''{plex}'' @ [CHR 0x0A])))))
             = ParsedEntry entry_plex"
    by code_simp
  have t: "truthy (ID entry_plex)" "or_str (ID entry_plex) [] = ''aaa111''"
    by code_simp+
  define det where "det = (case run sample_pf (''docker inspect ''
        @ (case ID entry_plex of Some e \<Rightarrow> e | None \<Rightarrow> ''undefined'')) of
      Inl err \<Rightarrow> None
    | Inr out \<Rightarrow> (case parseInspect sample_pf out of Some (Some d # _) \<Rightarrow> Some d | _ \<Rightarrow> None))"
  from t(1) obtain c where b: "buildContainerFromPsAndInspect sample_pf entry_plex det = Some c"
    using build_None_iff [of sample_pf entry_plex det] by (metis option.exhaust)
  with t(2) have i: "id_c c = ''aaa111''"
    using build_Some_id by fastforce
  have "refreshSingleContainer sample_pf ''aaa111'' cache = upsertContainerInCache c cache"
    unfolding refreshSingleContainer_def Let_def r
    using n p b unfolding det_def by simp
  with i show ?thesis by blast
qed

subsection \<open>One entry per id\<close>




subsection \<open>The list and the map agree\<close>




section \<open>Events: classification\<close>

lemma includes_self: "includes_str a a"
  by (cases a) (simp_all add: startsWith_def)

lemma refresh_action_included:
  "a \<in> set refreshActions \<Longrightarrow> \<exists>k\<in>set refreshActions. includes_str a k"
  using includes_self by blast

lemma remove_action_not_refresh:
  "a \<in> set removeActions \<Longrightarrow>
     \<not> (\<exists>k\<in>set refreshActions. includes_str a k) \<and> (\<exists>k\<in>set removeActions. includes_str a k)"
proof -
  assume a: "a \<in> set removeActions"
  have "\<not> (\<exists>k\<in>set refreshActions. includes_str ''destroy'' k)"
       "\<not> (\<exists>k\<in>set refreshActions. includes_str ''remove'' k)"
    by code_simp+
  with a includes_self show ?thesis
    by (auto simp: removeActions_def)
qed

lemma handleEvent_classified:
  assumes "\<not> (truthy (ev_Type evt) \<and> ev_Type evt \<noteq> Some ''container'')"
      and "eventId evt = Some i" and "i \<noteq> []" and "eventAction evt \<noteq> []"
  shows "handleDockerEvent pf evt cache
           = (if \<exists>k\<in>set refreshActions. includes_str (eventAction evt) k
              then refreshSingleContainer pf i cache
              else if \<exists>k\<in>set removeActions. includes_str (eventAction evt) k
              then removeContainerFromCache i cache
              else cache)"
proof -
  from assms(1) have t: "(truthy (ev_Type evt) \<and> ev_Type evt \<noteq> Some ''container'') = False"
    by blast
  from assms(2,3) have i: "or_str (eventId evt) [] = i"
    by (simp add: or_str_def)
  show ?thesis
    unfolding handleDockerEvent_def Let_def t i if_False
    using assms(3,4) by (simp add: refreshActions_def removeActions_def)
qed

lemma handleEvent_other_type:
  "truthy (ev_Type evt) \<Longrightarrow> ev_Type evt \<noteq> Some ''container'' \<Longrightarrow>
     handleDockerEvent pf evt cache = cache"
  by (simp add: handleDockerEvent_def)

lemma handleEvent_incomplete:
  "or_str (eventId evt) [] = [] \<or> eventAction evt = [] \<Longrightarrow>
     handleDockerEvent pf evt cache = cache"
  by (auto simp: handleDockerEvent_def Let_def)

lemma handleEvent_retyped:
  assumes "\<not> (truthy (ev_Type evt) \<and> ev_Type evt \<noteq> Some ''container'')"
  shows "handleDockerEvent pf evt cache
           = handleDockerEvent pf (evt\<lparr> ev_Type := Some ''container'' \<rparr>) cache"
proof -
  from assms have t: "(truthy (ev_Type evt) \<and> ev_Type evt \<noteq> Some ''container'') = False"
    by blast
  have i: "eventId (evt\<lparr> ev_Type := Some ''container'' \<rparr>) = eventId evt"
          "eventAction (evt\<lparr> ev_Type := Some ''container'' \<rparr>) = eventAction evt"
    by (simp_all add: eventId_def eventAction_def)
  show ?thesis
    unfolding handleDockerEvent_def Let_def t i by simp
qed

text \<open>
  C6, as the code has it: an event is classified when its type is \<open>container\<close>, the empty
  string or absent, and it has an id and an action. The lowercased action is matched by
  substring in the order of the code: an action that includes one of \<open>create, start,
  restart, rename, unpause, pause, die, stop\<close> starts the refresh of that container, also
  when it includes \<open>destroy\<close> or \<open>remove\<close> as well; an action that includes none of them and
  includes \<open>destroy\<close> or \<open>remove\<close> removes the container from the cache; any other action
  leaves the cache as it is. Each listed action itself falls in its own class, \<open>Die\<close>
  lowercases to an action of the first list and \<open>destroy\<close> is one of the second. An event
  whose type is present, not empty and not \<open>container\<close>, and an event without an id or
  without an action, leave the cache as it is.
\<close>

theorem event_classification:
  "(parseEvent pf line = Some evt
      \<and> (ev_Type evt = Some ''container'' \<or> ev_Type evt = Some [] \<or> ev_Type evt = None)
      \<and> eventId evt = Some i \<and> i \<noteq> [] \<and> eventAction evt \<noteq> [] \<longrightarrow>
        ((\<exists>k\<in>set refreshActions. includes_str (eventAction evt) k)
           \<longrightarrow> handleDockerEventLine pf line cache = refreshSingleContainer pf i cache)
      \<and> (\<not> (\<exists>k\<in>set refreshActions. includes_str (eventAction evt) k)
           \<and> (\<exists>k\<in>set removeActions. includes_str (eventAction evt) k)
           \<longrightarrow> handleDockerEventLine pf line cache = removeContainerFromCache i cache)
      \<and> (\<not> (\<exists>k\<in>set refreshActions. includes_str (eventAction evt) k)
           \<and> \<not> (\<exists>k\<in>set removeActions. includes_str (eventAction evt) k)
           \<longrightarrow> handleDockerEventLine pf line cache = cache)
      \<and> (eventAction evt \<in> set refreshActions
           \<longrightarrow> handleDockerEventLine pf line cache = refreshSingleContainer pf i cache)
      \<and> (eventAction evt \<in> set removeActions
           \<longrightarrow> handleDockerEventLine pf line cache = removeContainerFromCache i cache))
   \<and> (parseEvent pf line = Some evt \<and> ev_Type evt = Some t \<and> t \<noteq> [] \<and> t \<noteq> ''container''
        \<longrightarrow> handleDockerEventLine pf line cache = cache)
   \<and> (parseEvent pf line = Some evt \<and> (or_str (eventId evt) [] = [] \<or> eventAction evt = [])
        \<longrightarrow> handleDockerEventLine pf line cache = cache)
   \<and> toLowerCase ''Die'' \<in> set refreshActions
   \<and> toLowerCase ''destroy'' \<in> set removeActions"
proof (intro conjI impI)
  show "toLowerCase ''Die'' \<in> set refreshActions" by code_simp
  show "toLowerCase ''destroy'' \<in> set removeActions" by code_simp
next
  assume "parseEvent pf line = Some evt \<and> ev_Type evt = Some t \<and> t \<noteq> [] \<and> t \<noteq> ''container''"
  then show "handleDockerEventLine pf line cache = cache"
    by (simp add: handleDockerEventLine_def handleEvent_other_type truthy_def)
next
  assume "parseEvent pf line = Some evt
            \<and> (or_str (eventId evt) [] = [] \<or> eventAction evt = [])"
  then show "handleDockerEventLine pf line cache = cache"
    by (simp add: handleDockerEventLine_def handleEvent_incomplete)
next
  assume a: "parseEvent pf line = Some evt
      \<and> (ev_Type evt = Some ''container'' \<or> ev_Type evt = Some [] \<or> ev_Type evt = None)
      \<and> eventId evt = Some i \<and> i \<noteq> [] \<and> eventAction evt \<noteq> []"
  then have h: "handleDockerEventLine pf line cache = handleDockerEvent pf evt cache"
    by (simp add: handleDockerEventLine_def)
  from a have n: "\<not> (truthy (ev_Type evt) \<and> ev_Type evt \<noteq> Some ''container'')"
    by (auto simp: truthy_def)
  from a n have c: "handleDockerEvent pf evt cache
           = (if \<exists>k\<in>set refreshActions. includes_str (eventAction evt) k
              then refreshSingleContainer pf i cache
              else if \<exists>k\<in>set removeActions. includes_str (eventAction evt) k
              then removeContainerFromCache i cache
              else cache)"
    using handleEvent_classified [of evt i pf cache] by simp
  {
    assume "\<exists>k\<in>set refreshActions. includes_str (eventAction evt) k"
    with h c show "handleDockerEventLine pf line cache = refreshSingleContainer pf i cache"
      by simp
  }
  {
    assume "\<not> (\<exists>k\<in>set refreshActions. includes_str (eventAction evt) k)
           \<and> (\<exists>k\<in>set removeActions. includes_str (eventAction evt) k)"
    with h c show "handleDockerEventLine pf line cache = removeContainerFromCache i cache"
      by simp
  }
  {
    assume "\<not> (\<exists>k\<in>set refreshActions. includes_str (eventAction evt) k)
           \<and> \<not> (\<exists>k\<in>set removeActions. includes_str (eventAction evt) k)"
    with h c show "handleDockerEventLine pf line cache = cache"
      by simp
  }
  {
    assume "eventAction evt \<in> set refreshActions"
    then have "\<exists>k\<in>set refreshActions. includes_str (eventAction evt) k"
      by (rule refresh_action_included)
    with h c show "handleDockerEventLine pf line cache = refreshSingleContainer pf i cache"
      by simp
  }
  {
    assume "eventAction evt \<in> set removeActions"
    then have "\<not> (\<exists>k\<in>set refreshActions. includes_str (eventAction evt) k)
       \<and> (\<exists>k\<in>set removeActions. includes_str (eventAction evt) k)"
      by (rule remove_action_not_refresh)
    with h c show "handleDockerEventLine pf line cache = removeContainerFromCache i cache"
      by simp
  }
qed

text \<open>
  The events \<open>Die\<close> and \<open>destroy\<close> of the sample host, a \<open>destroy\<close> event of type
  \<open>network\<close>, a \<open>destroy\<close> event whose type is the empty string, the event of a command
  whose action includes \<open>start\<close> and \<open>remove\<close>, a \<open>destroy\<close> event without a type, an \<open>attach\<close>
  event, and an event without an id.
\<close>

theorem event_classification_witness:
  "parseEvent sample_pf ''{die aaa111}'' = Some event_die
   \<and> or_else (ev_status event_die) (ev_Action event_die) = Some ''Die''
   \<and> handleDockerEventLine sample_pf ''{die aaa111}'' sample_cache
       = refreshSingleContainer sample_pf ''aaa111'' sample_cache
   \<and> parseEvent sample_pf ''{destroy bbb222}'' = Some event_destroy
   \<and> eventAction event_destroy = ''destroy''
   \<and> handleDockerEventLine sample_pf ''{destroy bbb222}'' sample_cache
       = removeContainerFromCache ''bbb222'' sample_cache
   \<and> parseEvent sample_pf ''{network destroy}'' = Some event_network
   \<and> ev_Type event_network = Some ''network''
   \<and> handleDockerEventLine sample_pf ''{network destroy}'' sample_cache = sample_cache
   \<and> parseEvent sample_pf ''{empty type destroy}'' = Some event_empty_type
   \<and> ev_Type event_empty_type = Some []
   \<and> handleDockerEventLine sample_pf ''{empty type destroy}'' sample_cache
       = removeContainerFromCache ''bbb222'' sample_cache
   \<and> parseEvent sample_pf ''{exec_start aaa111}'' = Some event_exec
   \<and> includes_str (eventAction event_exec) ''start''
   \<and> includes_str (eventAction event_exec) ''remove''
   \<and> handleDockerEventLine sample_pf ''{exec_start aaa111}'' sample_cache
       = refreshSingleContainer sample_pf ''aaa111'' sample_cache
   \<and> parseEvent sample_pf ''{untyped destroy}'' = Some event_untyped
   \<and> ev_Type event_untyped = None
   \<and> handleDockerEventLine sample_pf ''{untyped destroy}'' sample_cache
       = removeContainerFromCache ''bbb222'' sample_cache
   \<and> parseEvent (sample_pf\<lparr> parseEvent := (\<lambda>s. Some (event_die\<lparr> ev_status := None,
          ev_Action := Some ''attach'' \<rparr>)) \<rparr>) ''{}''
       = Some (event_die\<lparr> ev_status := None, ev_Action := Some ''attach'' \<rparr>)
   \<and> eventAction (event_die\<lparr> ev_status := None, ev_Action := Some ''attach'' \<rparr>) = ''attach''
   \<and> handleDockerEventLine (sample_pf\<lparr> parseEvent := (\<lambda>s. Some (event_die\<lparr> ev_status := None,
          ev_Action := Some ''attach'' \<rparr>)) \<rparr>) ''{}'' sample_cache = sample_cache
   \<and> parseEvent (sample_pf\<lparr> parseEvent := (\<lambda>s. Some (event_die\<lparr> ev_id := None,
          ev_Actor_ID := None \<rparr>)) \<rparr>) ''{}''
       = Some (event_die\<lparr> ev_id := None, ev_Actor_ID := None \<rparr>)
   \<and> or_str (eventId (event_die\<lparr> ev_id := None, ev_Actor_ID := None \<rparr>)) [] = []
   \<and> handleDockerEventLine (sample_pf\<lparr> parseEvent := (\<lambda>s. Some (event_die\<lparr> ev_id := None,
          ev_Actor_ID := None \<rparr>)) \<rparr>) ''{}'' sample_cache = sample_cache"
proof -
  have p1: "parseEvent sample_pf ''{die aaa111}'' = Some event_die"
   and p2: "parseEvent sample_pf ''{destroy bbb222}'' = Some event_destroy"
   and p3: "parseEvent sample_pf ''{network destroy}'' = Some event_network"
   and p4: "parseEvent sample_pf ''{empty type destroy}'' = Some event_empty_type"
   and p5: "parseEvent sample_pf ''{exec_start aaa111}'' = Some event_exec"
   and p6: "parseEvent (sample_pf\<lparr> parseEvent := (\<lambda>s. Some (event_die\<lparr> ev_id := None,
          ev_Actor_ID := None \<rparr>)) \<rparr>) ''{}''
       = Some (event_die\<lparr> ev_id := None, ev_Actor_ID := None \<rparr>)"
    by (simp_all add: sample_pf_def)
  have p7: "parseEvent sample_pf ''{untyped destroy}'' = Some event_untyped"
   and p8: "parseEvent (sample_pf\<lparr> parseEvent := (\<lambda>s. Some (event_die\<lparr> ev_status := None,
          ev_Action := Some ''attach'' \<rparr>)) \<rparr>) ''{}''
       = Some (event_die\<lparr> ev_status := None, ev_Action := Some ''attach'' \<rparr>)"
    by (simp_all add: sample_pf_def)
  have e7: "ev_Type event_untyped = None" "eventId event_untyped = Some ''bbb222''"
           "eventAction event_untyped = ''destroy''"
    by code_simp+
  have e8: "ev_Type (event_die\<lparr> ev_status := None, ev_Action := Some ''attach'' \<rparr>)
              = Some ''container''"
           "eventId (event_die\<lparr> ev_status := None, ev_Action := Some ''attach'' \<rparr>)
              = Some ''aaa111''"
           "eventAction (event_die\<lparr> ev_status := None, ev_Action := Some ''attach'' \<rparr>)
              = ''attach''"
           "\<not> (\<exists>k\<in>set refreshActions. includes_str ''attach'' k)
            \<and> \<not> (\<exists>k\<in>set removeActions. includes_str ''attach'' k)"
           "''attach'' \<noteq> []"
    by code_simp+
  have e1: "ev_Type event_die = Some ''container''" "eventId event_die = Some ''aaa111''"
           "eventAction event_die = ''die''"
           "or_else (ev_status event_die) (ev_Action event_die) = Some ''Die''"
    by code_simp+
  have e2: "ev_Type event_destroy = Some ''container''" "eventId event_destroy = Some ''bbb222''"
           "eventAction event_destroy = ''destroy''"
    by code_simp+
  have e3: "ev_Type event_network = Some ''network''" "''network'' \<noteq> []"
           "''network'' \<noteq> ''container''"
    by code_simp+
  have e4: "ev_Type event_empty_type = Some []" "eventId event_empty_type = Some ''bbb222''"
           "eventAction event_empty_type = ''destroy''"
    by code_simp+
  have e5: "ev_Type event_exec = Some ''container''" "eventId event_exec = Some ''aaa111''"
           "eventAction event_exec \<noteq> []"
           "includes_str (eventAction event_exec) ''start''"
           "includes_str (eventAction event_exec) ''remove''"
           "''start'' \<in> set refreshActions"
    by code_simp+
  have e6: "or_str (eventId (event_die\<lparr> ev_id := None, ev_Actor_ID := None \<rparr>)) [] = []"
    by code_simp
  have m1: "''die'' \<in> set refreshActions" and m2: "''destroy'' \<in> set removeActions"
       and m3: "''aaa111'' \<noteq> []" "''bbb222'' \<noteq> []"
    by code_simp+
  note t1 = event_classification
      [where pf = sample_pf and line = "''{die aaa111}''" and evt = event_die
         and i = "''aaa111''" and cache = sample_cache]
  note t2 = event_classification
      [where pf = sample_pf and line = "''{destroy bbb222}''" and evt = event_destroy
         and i = "''bbb222''" and cache = sample_cache]
  note t3 = event_classification
      [where pf = sample_pf and line = "''{network destroy}''" and evt = event_network
         and t = "''network''" and i = "[]" and cache = sample_cache]
  note t4 = event_classification
      [where pf = sample_pf and line = "''{empty type destroy}''" and evt = event_empty_type
         and i = "''bbb222''" and cache = sample_cache]
  note t5 = event_classification
      [where pf = sample_pf and line = "''{exec_start aaa111}''" and evt = event_exec
         and i = "''aaa111''" and cache = sample_cache]
  note t6 = event_classification
      [where pf = "sample_pf\<lparr> parseEvent := (\<lambda>s. Some (event_die\<lparr> ev_id := None,
          ev_Actor_ID := None \<rparr>)) \<rparr>" and line = "''{}''"
         and evt = "event_die\<lparr> ev_id := None, ev_Actor_ID := None \<rparr>"
         and i = "[]" and cache = sample_cache]
  from m1 e1 have n1: "eventAction event_die \<in> set refreshActions" "eventAction event_die \<noteq> []"
    by simp_all
  from m2 e2 have n2: "eventAction event_destroy \<in> set removeActions"
      "eventAction event_destroy \<noteq> []"
    by simp_all
  from m2 e4 have n4: "eventAction event_empty_type \<in> set removeActions"
      "eventAction event_empty_type \<noteq> []"
    by simp_all
  from e5 have n5: "\<exists>k\<in>set refreshActions. includes_str (eventAction event_exec) k"
    by blast
  from t1 p1 e1 n1 m3 have r1: "handleDockerEventLine sample_pf ''{die aaa111}'' sample_cache
       = refreshSingleContainer sample_pf ''aaa111'' sample_cache"
    by blast
  from t2 p2 e2 n2 m3 have r2: "handleDockerEventLine sample_pf ''{destroy bbb222}'' sample_cache
       = removeContainerFromCache ''bbb222'' sample_cache"
    by blast
  from t3 p3 e3 have r3: "handleDockerEventLine sample_pf ''{network destroy}'' sample_cache
       = sample_cache"
    by blast
  from t4 p4 e4 n4 m3
  have r4: "handleDockerEventLine sample_pf ''{empty type destroy}'' sample_cache
       = removeContainerFromCache ''bbb222'' sample_cache"
    by blast
  from t5 p5 e5 n5 m3
  have r5: "handleDockerEventLine sample_pf ''{exec_start aaa111}'' sample_cache
       = refreshSingleContainer sample_pf ''aaa111'' sample_cache"
    by blast
  from t6 p6 e6
  have r6: "handleDockerEventLine (sample_pf\<lparr> parseEvent := (\<lambda>s. Some (event_die\<lparr> ev_id := None,
          ev_Actor_ID := None \<rparr>)) \<rparr>) ''{}'' sample_cache = sample_cache"
    by blast
  note t7 = event_classification
      [where pf = sample_pf and line = "''{untyped destroy}''" and evt = event_untyped
         and i = "''bbb222''" and cache = sample_cache]
  note t8 = event_classification
      [where pf = "sample_pf\<lparr> parseEvent := (\<lambda>s. Some (event_die\<lparr> ev_status := None,
          ev_Action := Some ''attach'' \<rparr>)) \<rparr>" and line = "''{}''"
         and evt = "event_die\<lparr> ev_status := None, ev_Action := Some ''attach'' \<rparr>"
         and i = "''aaa111''" and cache = sample_cache]
  from m2 e7 have n7: "eventAction event_untyped \<in> set removeActions"
      "eventAction event_untyped \<noteq> []"
    by simp_all
  from t7 p7 e7 n7 m3
  have r7: "handleDockerEventLine sample_pf ''{untyped destroy}'' sample_cache
       = removeContainerFromCache ''bbb222'' sample_cache"
    by blast
  from e8 have n8:
      "eventAction (event_die\<lparr> ev_status := None, ev_Action := Some ''attach'' \<rparr>) \<noteq> []"
      "\<not> (\<exists>k\<in>set refreshActions. includes_str
            (eventAction (event_die\<lparr> ev_status := None, ev_Action := Some ''attach'' \<rparr>)) k)
       \<and> \<not> (\<exists>k\<in>set removeActions. includes_str
            (eventAction (event_die\<lparr> ev_status := None, ev_Action := Some ''attach'' \<rparr>)) k)"
    by simp_all
  from t8 p8 e8(1,2) n8 m3
  have r8: "handleDockerEventLine (sample_pf\<lparr> parseEvent := (\<lambda>s. Some (event_die\<lparr> ev_status := None,
          ev_Action := Some ''attach'' \<rparr>)) \<rparr>) ''{}'' sample_cache = sample_cache"
    by blast
  from p1 e1(4) r1 p2 e2(3) r2 p3 e3(1) r3 p4 e4(1) r4 p5 e5(4,5) r5 p7 e7(1) r7 p8 e8(3) r8
       p6 e6 r6
  show ?thesis by blast
qed

text \<open>
  A \<open>destroy\<close> event whose \<open>Type\<close> is present, as the empty string, and is not
  \<open>container\<close> changes the inventory: it removes the container \<open>bbb222\<close>. An event of type
  \<open>container\<close> whose action includes \<open>remove\<close>, and \<open>start\<close> too, does not remove its
  container \<open>aaa111\<close>: it refreshes it, and the container stays in the list.
\<close>

theorem event_classification_counterexample:
  "map id_c (list_c sample_cache) = [''aaa111'', ''bbb222'']
   \<and> parseEvent sample_pf ''{empty type destroy}'' = Some event_empty_type
   \<and> ev_Type event_empty_type = Some []
   \<and> ev_Type event_empty_type \<noteq> None
   \<and> ev_Type event_empty_type \<noteq> Some ''container''
   \<and> map id_c (list_c (handleDockerEventLine sample_pf ''{empty type destroy}'' sample_cache))
       = [''aaa111'']
   \<and> handleDockerEventLine sample_pf ''{empty type destroy}'' sample_cache \<noteq> sample_cache
   \<and> parseEvent sample_pf ''{exec_start aaa111}'' = Some event_exec
   \<and> ev_Type event_exec = Some ''container''
   \<and> eventId event_exec = Some ''aaa111''
   \<and> includes_str (eventAction event_exec) ''remove''
   \<and> map id_c (list_c (handleDockerEventLine sample_pf ''{exec_start aaa111}'' sample_cache))
       = [''aaa111'', ''bbb222'']
   \<and> map id_c (list_c (removeContainerFromCache ''aaa111'' sample_cache)) = [''bbb222'']
   \<and> handleDockerEventLine sample_pf ''{exec_start aaa111}'' sample_cache
       \<noteq> removeContainerFromCache ''aaa111'' sample_cache"
proof -
  note s = sample_cache_ids
  have p4: "parseEvent sample_pf ''{empty type destroy}'' = Some event_empty_type"
   and p5: "parseEvent sample_pf ''{exec_start aaa111}'' = Some event_exec"
    by (simp_all add: sample_pf_def)
  have e4: "ev_Type event_empty_type = Some []" "ev_Type event_empty_type \<noteq> None"
           "ev_Type event_empty_type \<noteq> Some ''container''"
           "\<not> (truthy (ev_Type event_empty_type)
                \<and> ev_Type event_empty_type \<noteq> Some ''container'')"
           "eventId event_empty_type = Some ''bbb222''"
           "eventAction event_empty_type \<noteq> []"
           "\<not> (\<exists>k\<in>set refreshActions. includes_str (eventAction event_empty_type) k)"
           "\<exists>k\<in>set removeActions. includes_str (eventAction event_empty_type) k"
    by code_simp+
  have e5: "ev_Type event_exec = Some ''container''"
           "\<not> (truthy (ev_Type event_exec) \<and> ev_Type event_exec \<noteq> Some ''container'')"
           "eventId event_exec = Some ''aaa111''"
           "eventAction event_exec \<noteq> []"
           "includes_str (eventAction event_exec) ''remove''"
           "\<exists>k\<in>set refreshActions. includes_str (eventAction event_exec) k"
    by code_simp+
  have m: "''aaa111'' \<noteq> []" "''bbb222'' \<noteq> []"
    by simp_all
  have "handleDockerEvent sample_pf event_empty_type sample_cache
          = removeContainerFromCache ''bbb222'' sample_cache"
    using handleEvent_classified [OF e4(4) e4(5) m(2) e4(6), of sample_pf sample_cache] e4(7,8)
    by simp
  with p4 have h4: "handleDockerEventLine sample_pf ''{empty type destroy}'' sample_cache
          = removeContainerFromCache ''bbb222'' sample_cache"
    by (simp add: handleDockerEventLine_def)
  have i4: "map id_c (list_c (handleDockerEventLine sample_pf ''{empty type destroy}''
              sample_cache)) = [''aaa111'']"
    unfolding h4 remove_ids [OF m(2)] s by simp
  from i4 s have d4: "handleDockerEventLine sample_pf ''{empty type destroy}'' sample_cache
                        \<noteq> sample_cache"
    by auto
  have "handleDockerEvent sample_pf event_exec sample_cache
          = refreshSingleContainer sample_pf ''aaa111'' sample_cache"
    using handleEvent_classified [OF e5(2) e5(3) m(1) e5(4), of sample_pf sample_cache] e5(6)
    by simp
  with p5 have h5: "handleDockerEventLine sample_pf ''{exec_start aaa111}'' sample_cache
          = refreshSingleContainer sample_pf ''aaa111'' sample_cache"
    by (simp add: handleDockerEventLine_def)
  from refreshSingle_sample [of sample_cache] obtain c where c: "id_c c = ''aaa111''"
      "refreshSingleContainer sample_pf ''aaa111'' sample_cache
         = upsertContainerInCache c sample_cache"
    by blast
  have i5: "map id_c (list_c (handleDockerEventLine sample_pf ''{exec_start aaa111}''
              sample_cache)) = [''aaa111'', ''bbb222'']"
    unfolding h5 c(2) upsert_ids s c(1) by simp
  have r5: "map id_c (list_c (removeContainerFromCache ''aaa111'' sample_cache)) = [''bbb222'']"
    unfolding remove_ids [OF m(1)] s by simp
  from i5 r5 have d5: "handleDockerEventLine sample_pf ''{exec_start aaa111}'' sample_cache
       \<noteq> removeContainerFromCache ''aaa111'' sample_cache"
    by auto
  from s p4 e4(1,2,3) i4 d4 p5 e5(1,3,5) i5 r5 d5 show ?thesis by blast
qed

text \<open>
  C10: an event with no \<open>Type\<close> field, or with the empty string there, is handled as the
  same event with type \<open>container\<close> is: an action of the first list starts the refresh, an
  action of the second list removes the container. An event is dropped for its type only
  when the type is present, not empty and not \<open>container\<close>.
\<close>

theorem untyped_event_is_processed:
  "(parseEvent pf line = Some evt \<and> (ev_Type evt = None \<or> ev_Type evt = Some []) \<longrightarrow>
       handleDockerEventLine pf line cache
         = handleDockerEvent pf (evt\<lparr> ev_Type := Some ''container'' \<rparr>) cache
     \<and> (eventId evt = Some i \<and> i \<noteq> [] \<and> eventAction evt \<in> set refreshActions
          \<longrightarrow> handleDockerEventLine pf line cache = refreshSingleContainer pf i cache)
     \<and> (eventId evt = Some i \<and> i \<noteq> [] \<and> eventAction evt \<in> set removeActions
          \<longrightarrow> handleDockerEventLine pf line cache = removeContainerFromCache i cache))
   \<and> (parseEvent pf line = Some evt \<and> ev_Type evt = Some t \<and> t \<noteq> [] \<and> t \<noteq> ''container''
        \<longrightarrow> handleDockerEventLine pf line cache = cache)"
proof (intro conjI impI)
  assume "parseEvent pf line = Some evt \<and> ev_Type evt = Some t \<and> t \<noteq> [] \<and> t \<noteq> ''container''"
  then show "handleDockerEventLine pf line cache = cache"
    by (simp add: handleDockerEventLine_def handleEvent_other_type truthy_def)
next
  assume a: "parseEvent pf line = Some evt \<and> (ev_Type evt = None \<or> ev_Type evt = Some [])"
  then have h: "handleDockerEventLine pf line cache = handleDockerEvent pf evt cache"
    by (simp add: handleDockerEventLine_def)
  from a have n: "\<not> (truthy (ev_Type evt) \<and> ev_Type evt \<noteq> Some ''container'')"
    by (auto simp: truthy_def)
  from n show "handleDockerEventLine pf line cache
         = handleDockerEvent pf (evt\<lparr> ev_Type := Some ''container'' \<rparr>) cache"
    unfolding h by (rule handleEvent_retyped)
  {
    assume b: "eventId evt = Some i \<and> i \<noteq> [] \<and> eventAction evt \<in> set refreshActions"
    then have "eventAction evt \<noteq> []" by (auto simp: refreshActions_def)
    with n b have "handleDockerEvent pf evt cache
           = (if \<exists>k\<in>set refreshActions. includes_str (eventAction evt) k
              then refreshSingleContainer pf i cache
              else if \<exists>k\<in>set removeActions. includes_str (eventAction evt) k
              then removeContainerFromCache i cache
              else cache)"
      using handleEvent_classified [of evt i pf cache] by simp
    with h b refresh_action_included [of "eventAction evt"]
    show "handleDockerEventLine pf line cache = refreshSingleContainer pf i cache"
      by simp
  }
  {
    assume b: "eventId evt = Some i \<and> i \<noteq> [] \<and> eventAction evt \<in> set removeActions"
    then have "eventAction evt \<noteq> []" by (auto simp: removeActions_def)
    with n b have "handleDockerEvent pf evt cache
           = (if \<exists>k\<in>set refreshActions. includes_str (eventAction evt) k
              then refreshSingleContainer pf i cache
              else if \<exists>k\<in>set removeActions. includes_str (eventAction evt) k
              then removeContainerFromCache i cache
              else cache)"
      using handleEvent_classified [of evt i pf cache] by simp
    with h b remove_action_not_refresh [of "eventAction evt"]
    show "handleDockerEventLine pf line cache = removeContainerFromCache i cache"
      by simp
  }
qed

text \<open>
  A \<open>destroy\<close> event without a type removes its container from the sample cache; the
  same action with type \<open>network\<close> changes nothing.
\<close>

theorem untyped_event_is_processed_witness:
  "parseEvent sample_pf ''{untyped destroy}'' = Some event_untyped
   \<and> ev_Type event_untyped = None
   \<and> eventId event_untyped = Some ''bbb222''
   \<and> eventAction event_untyped \<in> set removeActions
   \<and> handleDockerEventLine sample_pf ''{untyped destroy}'' sample_cache
       = removeContainerFromCache ''bbb222'' sample_cache
   \<and> map id_c (list_c (handleDockerEventLine sample_pf ''{untyped destroy}'' sample_cache))
       = [''aaa111'']
   \<and> parseEvent sample_pf ''{network destroy}'' = Some event_network
   \<and> ev_Type event_network = Some ''network''
   \<and> handleDockerEventLine sample_pf ''{network destroy}'' sample_cache = sample_cache"
proof -
  have p1: "parseEvent sample_pf ''{untyped destroy}'' = Some event_untyped"
   and p3: "parseEvent sample_pf ''{network destroy}'' = Some event_network"
    by (simp_all add: sample_pf_def)
  have e1: "ev_Type event_untyped = None" "eventId event_untyped = Some ''bbb222''"
           "eventAction event_untyped \<in> set removeActions"
    by code_simp+
  have e3: "ev_Type event_network = Some ''network''" "''network'' \<noteq> []"
           "''network'' \<noteq> ''container''"
    by code_simp+
  note t1 = untyped_event_is_processed
      [where pf = sample_pf and line = "''{untyped destroy}''" and evt = event_untyped
         and i = "''bbb222''" and cache = sample_cache]
  note t3 = untyped_event_is_processed
      [where pf = sample_pf and line = "''{network destroy}''" and evt = event_network
         and t = "''network''" and i = "[]" and cache = sample_cache]
  from t1 p1 e1 have r1: "handleDockerEventLine sample_pf ''{untyped destroy}'' sample_cache
       = removeContainerFromCache ''bbb222'' sample_cache"
    by blast
  have "map id_c (list_c (removeContainerFromCache ''bbb222'' sample_cache))
          = filter (\<lambda>k. k \<noteq> ''bbb222'') (map id_c (list_c sample_cache))"
    by (simp add: removeContainerFromCache_def filter_map comp_def)
  then have "map id_c (list_c (removeContainerFromCache ''bbb222'' sample_cache)) = [''aaa111'']"
    unfolding sample_cache_ids by simp
  with r1 have r2: "map id_c (list_c (handleDockerEventLine sample_pf ''{untyped destroy}''
      sample_cache)) = [''aaa111'']"
    by simp
  from t3 p3 e3 have r3: "handleDockerEventLine sample_pf ''{network destroy}'' sample_cache
       = sample_cache"
    by blast
  from p1 e1 r1 r2 p3 e3 r3 show ?thesis by blast
qed

end
